theory Spec2Isabelle
  imports Complex_Main
begin

section \<open>JavaScript numbers\<close>

text \<open>
  The widgets compute with JavaScript numbers. A number is modelled as a real, and a slot
  that may hold \<^verbatim>\<open>NaN\<close> or \<^verbatim>\<open>undefined\<close> as a \<open>real option\<close>:
  \<open>None\<close> is the not-a-number that \<^verbatim>\<open>undefined\<close> turns into as soon as arithmetic touches it.
  Rounding error and the infinities are outside the model; every division of the modelled
  code is written with the guard the source puts in front of it.
\<close>

type_synonym jsnum = "real option"

definition num2 :: "(real \<Rightarrow> real \<Rightarrow> real) \<Rightarrow> jsnum \<Rightarrow> jsnum \<Rightarrow> jsnum" where
  \<comment> \<open>a binary arithmetic operator or \<^verbatim>\<open>Math.max\<close>/\<^verbatim>\<open>Math.min\<close>: NaN in, NaN out\<close>
  "num2 f a b = (case a of None \<Rightarrow> None
                 | Some x \<Rightarrow> (case b of None \<Rightarrow> None | Some y \<Rightarrow> Some (f x y)))"

definition num_abs :: "jsnum \<Rightarrow> jsnum" where
  \<comment> \<open>\<^verbatim>\<open>Math.abs\<close>\<close>
  "num_abs a = map_option abs a"

definition num_round :: "jsnum \<Rightarrow> jsnum" where
  \<comment> \<open>\<^verbatim>\<open>Math.round\<close>: the nearest integer, a half going up\<close>
  "num_round a = map_option (\<lambda>x. real_of_int (round x)) a"

definition num_lt :: "jsnum \<Rightarrow> jsnum \<Rightarrow> bool" where
  \<comment> \<open>\<^verbatim>\<open>a < b\<close>: false as soon as one side is NaN\<close>
  "num_lt a b = (case a of None \<Rightarrow> False
                 | Some x \<Rightarrow> (case b of None \<Rightarrow> False | Some y \<Rightarrow> x < y))"

definition num_eq :: "jsnum \<Rightarrow> jsnum \<Rightarrow> bool" where
  \<comment> \<open>\<^verbatim>\<open>a == b\<close> on numbers: NaN equals nothing\<close>
  "num_eq a b = (case a of None \<Rightarrow> False
                 | Some x \<Rightarrow> (case b of None \<Rightarrow> False | Some y \<Rightarrow> x = y))"

definition falsy :: "jsnum \<Rightarrow> bool" where
  \<comment> \<open>\<^verbatim>\<open>!a\<close>: zero, NaN and undefined are falsy\<close>
  "falsy a = (case a of None \<Rightarrow> True | Some x \<Rightarrow> x = 0)"

definition array_get :: "jsnum list \<Rightarrow> nat \<Rightarrow> jsnum" where
  \<comment> \<open>\<^verbatim>\<open>a[i]\<close>: reading past the end gives undefined\<close>
  "array_get a i = (if i < length a then a ! i else None)"

definition array_put :: "jsnum list \<Rightarrow> nat \<Rightarrow> real \<Rightarrow> jsnum list" where
  \<comment> \<open>\<^verbatim>\<open>a[i] = v\<close>: writing past the end grows the array, leaving holes\<close>
  "array_put a i v =
     (if i < length a then a[i := Some v]
      else a @ replicate (i - length a) None @ [Some v])"

section \<open>Dragdealer: the drag engine\<close>

subsection \<open>Step table\<close>

text \<open>
  \<^verbatim>\<open>calculateStepRatios\<close>: the loop \<^verbatim>\<open>for (i = 0; i <= steps - 1; i++)\<close> runs only
  under \<^verbatim>\<open>steps >= 1\<close> and stores \<^verbatim>\<open>i / (steps - 1)\<close>, or 0 for a single step.
\<close>

function calculateStepRatios_loop :: "int \<Rightarrow> nat \<Rightarrow> jsnum list \<Rightarrow> jsnum list" where
  "calculateStepRatios_loop steps i stepRatios =
     (if int i \<le> steps - 1
      then calculateStepRatios_loop steps (i + 1)
             (array_put stepRatios i
                (if steps > 1 then real i / real_of_int (steps - 1) else 0))
      else stepRatios)"
  by pat_completeness auto
termination
  by (relation "measure (\<lambda>(steps, i, _). nat (steps - int i))") auto

definition calculateStepRatios :: "int \<Rightarrow> jsnum list" where
  "calculateStepRatios steps =
     (if steps \<ge> 1 then calculateStepRatios_loop steps 0 [] else [])"

definition stepRatio :: "int \<Rightarrow> nat \<Rightarrow> jsnum" where
  \<comment> \<open>the value the loop stores at index \<open>i\<close>\<close>
  "stepRatio steps i = Some (if steps > 1 then real i / real_of_int (steps - 1) else 0)"

subsection \<open>Options, elements and the instance\<close>

text \<open>
  The options record is the object \<^verbatim>\<open>applyDefaults\<close> returns. A callback option is
  recorded as present or absent (\<^verbatim>\<open>typeof(...) == 'function'\<close>); the numeric options
  read as \<^verbatim>\<open>this.options.x || 0\<close> hold 0 when absent.
\<close>

record dd_options =
  opt_disabled :: bool
  opt_horizontal :: bool
  opt_vertical :: bool
  opt_slide :: bool
  opt_steps :: int
  opt_snap :: bool
  opt_loose :: bool
  opt_speed :: real
  opt_xPrecision :: real
  opt_yPrecision :: real
  opt_css3 :: bool
  opt_tapping :: bool
  opt_x :: real
  opt_y :: real
  opt_top :: real
  opt_bottom :: real
  opt_left :: real
  opt_right :: real
  opt_callback :: bool
  opt_dragStartCallback :: bool
  opt_dragStopCallback :: bool
  opt_animationCallback :: bool

definition defaults :: dd_options where
  "defaults = \<lparr> opt_disabled = False, opt_horizontal = True, opt_vertical = False,
      opt_slide = True, opt_steps = 0, opt_snap = False, opt_loose = False, opt_speed = 1 / 10,
      opt_xPrecision = 0, opt_yPrecision = 0, opt_css3 = True, opt_tapping = True,
      opt_x = 0, opt_y = 0, opt_top = 0, opt_bottom = 0, opt_left = 0, opt_right = 0,
      opt_callback = False, opt_dragStartCallback = False, opt_dragStopCallback = False,
      opt_animationCallback = False \<rparr>"

text \<open>
  A DOM element is the geometry the engine reads from it: \<^verbatim>\<open>offsetWidth\<close>,
  \<^verbatim>\<open>offsetHeight\<close> and the corner \<^verbatim>\<open>Position.get\<close> takes from
  \<^verbatim>\<open>getBoundingClientRect\<close>. A wrapper also has its descendants of the handle class,
  in document order. Changes of \<^verbatim>\<open>className\<close> are presentation and are left out.
\<close>

record element =
  offsetWidth :: real
  offsetHeight :: real
  rect :: "real \<times> real"

record wrapper_element = element +
  handles :: "element list"

record dd_bounds =
  b_top :: real
  b_bottom :: real
  b_left :: real
  b_right :: real
  availWidth :: real
  availHeight :: real

datatype dd_call =
    AnimationCallback jsnum jsnum
  | TargetCallback jsnum jsnum
  | DragStartCallback jsnum jsnum
  | DragStopCallback jsnum jsnum "real \<times> real"

text \<open>
  The instance after \<^verbatim>\<open>init\<close>. \<open>Cursor\<close> is the module's shared pointer position,
  \<open>transformSupported\<close> is \<^verbatim>\<open>StylePrefix.transform\<close>, the three \<open>style\<close> fields are
  what \<^verbatim>\<open>renderHandlePosition\<close> last wrote to the handle, \<open>calls\<close> is the sequence of
  callback invocations so far, and \<open>listening\<close> says that the event listeners and the
  animation frame are bound.
\<close>

record dragdealer =
  options :: dd_options
  wrapper :: wrapper_element
  handle :: element
  value_prev :: "jsnum \<times> jsnum"
  value_current :: "jsnum \<times> jsnum"
  value_target :: "jsnum \<times> jsnum"
  offset_wrapper :: "real \<times> real"
  offset_mouse :: "real \<times> real"
  offset_prev :: "jsnum \<times> jsnum"
  offset_current :: "jsnum \<times> jsnum"
  offset_target :: "jsnum \<times> jsnum"
  dragStartPosition :: "real \<times> real"
  change :: "jsnum \<times> jsnum"
  stepRatios :: "jsnum list"
  activity :: bool
  dragging :: bool
  tapping :: bool
  disabled :: bool
  bounds :: dd_bounds
  valuePrecision :: "real \<times> real"
  timeOffset :: jsnum
  timeStamp :: jsnum
  Cursor :: "real \<times> real"
  transformSupported :: bool
  style_transform :: "(jsnum option \<times> jsnum option) option"
  style_left :: "jsnum option"
  style_top :: "jsnum option"
  calls :: "dd_call list"
  listening :: bool

subsection \<open>Ratios, offsets and steps\<close>

definition getRatioByOffset :: "real \<Rightarrow> real \<Rightarrow> real \<Rightarrow> real" where
  "getRatioByOffset offset range' padding =
     (if range' \<noteq> 0 then (offset - padding) / range' else 0)"

definition getRatiosByOffsets :: "dragdealer \<Rightarrow> real \<times> real \<Rightarrow> real \<times> real" where
  "getRatiosByOffsets s grp =
     (getRatioByOffset (fst grp) (availWidth (bounds s)) (b_left (bounds s)),
      getRatioByOffset (snd grp) (availHeight (bounds s)) (b_top (bounds s)))"

definition getOffsetByRatio :: "jsnum \<Rightarrow> real \<Rightarrow> real \<Rightarrow> jsnum" where
  "getOffsetByRatio ratio range' padding =
     num2 (+) (num_round (num2 (*) ratio (Some range'))) (Some padding)"

definition getOffsetsByRatios :: "dragdealer \<Rightarrow> jsnum \<times> jsnum \<Rightarrow> jsnum \<times> jsnum" where
  "getOffsetsByRatios s grp =
     (getOffsetByRatio (fst grp) (availWidth (bounds s)) (b_left (bounds s)),
      getOffsetByRatio (snd grp) (availHeight (bounds s)) (b_top (bounds s)))"

text \<open>
  \<^verbatim>\<open>getClosestStep\<close>: \<open>k\<close> starts at 0 and \<open>min\<close> at 1; an index replaces \<open>k\<close> only when
  its distance is strictly smaller than \<open>min\<close>. The result is the table entry at \<open>k\<close>,
  undefined when the table is empty.
\<close>

function getClosestStep_loop :: "jsnum list \<Rightarrow> int \<Rightarrow> jsnum \<Rightarrow> nat \<Rightarrow> jsnum \<Rightarrow> nat \<Rightarrow> nat" where
  "getClosestStep_loop tbl steps v i mn k =
     (if int i \<le> steps - 1
      then (if num_lt (num_abs (num2 (-) (array_get tbl i) v)) mn
            then getClosestStep_loop tbl steps v (i + 1)
                   (num_abs (num2 (-) (array_get tbl i) v)) i
            else getClosestStep_loop tbl steps v (i + 1) mn k)
      else k)"
  by pat_completeness auto
termination
  by (relation "measure (\<lambda>(tbl, steps, v, i, mn, k). nat (steps - int i))") auto

definition getClosestStep :: "dragdealer \<Rightarrow> jsnum \<Rightarrow> jsnum" where
  "getClosestStep s v =
     array_get (stepRatios s)
       (getClosestStep_loop (stepRatios s) (opt_steps (options s)) v 0 (Some 1) 0)"

definition getClosestSteps :: "dragdealer \<Rightarrow> jsnum \<times> jsnum \<Rightarrow> jsnum \<times> jsnum" where
  "getClosestSteps s grp = (getClosestStep s (fst grp), getClosestStep s (snd grp))"

definition getProperValue :: "dragdealer \<Rightarrow> jsnum \<times> jsnum \<Rightarrow> jsnum \<times> jsnum" where
  "getProperValue s v =
     (let proper = (num2 min (num2 max (fst v) (Some 0)) (Some 1),
                    num2 min (num2 max (snd v) (Some 0)) (Some 1))
      in if ((\<not> dragging s \<and> \<not> tapping s) \<or> opt_snap (options s))
            \<and> opt_steps (options s) > 1
         then getClosestSteps s proper
         else proper)"

definition getLooseValue :: "dragdealer \<Rightarrow> jsnum \<times> jsnum \<Rightarrow> jsnum \<times> jsnum" where
  "getLooseValue s v =
     (let proper = getProperValue s v
      in (num2 (+) (fst proper) (num2 (/) (num2 (-) (fst v) (fst proper)) (Some 4)),
          num2 (+) (snd proper) (num2 (/) (num2 (-) (snd v) (snd proper)) (Some 4))))"

definition groupCompare :: "jsnum \<times> jsnum \<Rightarrow> jsnum \<times> jsnum \<Rightarrow> bool" where
  "groupCompare a b = (num_eq (fst a) (fst b) \<and> num_eq (snd a) (snd b))"

subsection \<open>Rendering and callbacks\<close>

definition renderHandlePosition :: "dragdealer \<Rightarrow> dragdealer" where
  "renderHandlePosition s =
     (if opt_css3 (options s) \<and> transformSupported s
      then s\<lparr>style_transform :=
               Some (if opt_horizontal (options s) then Some (fst (offset_current s)) else None,
                     if opt_vertical (options s) then Some (snd (offset_current s)) else None)\<rparr>
      else (let s1 = (if opt_horizontal (options s)
                      then s\<lparr>style_left := Some (fst (offset_current s))\<rparr> else s)
            in if opt_vertical (options s)
               then s1\<lparr>style_top := Some (snd (offset_current s))\<rparr> else s1))"

definition updateOffsetFromValue :: "dragdealer \<Rightarrow> dragdealer" where
  "updateOffsetFromValue s =
     (let s1 = (if \<not> opt_snap (options s)
                then s\<lparr>offset_current := getOffsetsByRatios s (value_current s)\<rparr>
                else s\<lparr>offset_current :=
                         getOffsetsByRatios s (getClosestSteps s (value_current s))\<rparr>)
      in if \<not> groupCompare (offset_current s1) (offset_prev s1)
         then (renderHandlePosition s1)\<lparr>offset_prev := offset_current s1\<rparr>
         else s1)"

definition callAnimationCallback :: "dragdealer \<Rightarrow> dragdealer" where
  "callAnimationCallback s =
     (let v = (if opt_snap (options s) \<and> opt_steps (options s) > 1
               then getClosestSteps s (value_current s) else value_current s)
      in if \<not> groupCompare v (value_prev s)
         then (if opt_animationCallback (options s)
               then s\<lparr>calls := calls s @ [AnimationCallback (fst v) (snd v)]\<rparr>
               else s)\<lparr>value_prev := v\<rparr>
         else s)"

definition callTargetCallback :: "dragdealer \<Rightarrow> dragdealer" where
  "callTargetCallback s =
     (if opt_callback (options s)
      then s\<lparr>calls := calls s @ [TargetCallback (fst (value_target s)) (snd (value_target s))]\<rparr>
      else s)"

definition callDragStartCallback :: "dragdealer \<Rightarrow> dragdealer" where
  "callDragStartCallback s =
     (if opt_dragStartCallback (options s)
      then s\<lparr>calls := calls s @ [DragStartCallback (fst (value_target s)) (snd (value_target s))]\<rparr>
      else s)"

definition callDragStopCallback :: "dragdealer \<Rightarrow> real \<times> real \<Rightarrow> dragdealer" where
  "callDragStopCallback s delta =
     (if opt_dragStopCallback (options s)
      then s\<lparr>calls := calls s @
                 [DragStopCallback (fst (value_target s)) (snd (value_target s)) delta]\<rparr>
      else s)"

subsection \<open>Setting and reading the value\<close>

definition setTargetValue :: "dragdealer \<Rightarrow> jsnum \<times> jsnum \<Rightarrow> bool \<Rightarrow> dragdealer" where
  "setTargetValue s v loose =
     (let target = (if loose then getLooseValue s v else getProperValue s v)
      in callTargetCallback
           (s\<lparr>value_target := target, offset_target := getOffsetsByRatios s target\<rparr>))"

definition setTargetValueByOffset :: "dragdealer \<Rightarrow> real \<times> real \<Rightarrow> bool \<Rightarrow> dragdealer" where
  "setTargetValueByOffset s offset loose =
     (let v = getRatiosByOffsets s offset;
          target = (if loose then getLooseValue s (Some (fst v), Some (snd v))
                    else getProperValue s (Some (fst v), Some (snd v)))
      in s\<lparr>value_target := target, offset_target := getOffsetsByRatios s target\<rparr>)"

definition or_zero :: "jsnum \<Rightarrow> jsnum" where
  \<comment> \<open>\<^verbatim>\<open>y || 0\<close>\<close>
  "or_zero y = (if falsy y then Some 0 else y)"

definition setValue :: "dragdealer \<Rightarrow> jsnum \<Rightarrow> jsnum \<Rightarrow> bool \<Rightarrow> dragdealer" where
  "setValue s x y snap =
     (let s1 = setTargetValue s (x, or_zero y) False
      in if snap
         then callAnimationCallback
                (updateOffsetFromValue (s1\<lparr>value_current := value_target s1\<rparr>))
         else s1)"


definition enable :: "dragdealer \<Rightarrow> dragdealer" where
  "enable s = s\<lparr>disabled := False\<rparr>"

definition disable :: "dragdealer \<Rightarrow> dragdealer" where
  "disable s = s\<lparr>disabled := True\<rparr>"

subsection \<open>Tapping and dragging\<close>

definition setWrapperOffset :: "dragdealer \<Rightarrow> dragdealer" where
  "setWrapperOffset s = s\<lparr>offset_wrapper := rect (wrapper s)\<rparr>"

definition startTap :: "dragdealer \<Rightarrow> dragdealer" where
  "startTap s =
     (if disabled s \<or> \<not> opt_tapping (options s) then s
      else (let s1 = setWrapperOffset (s\<lparr>tapping := True\<rparr>)
            in setTargetValueByOffset s1
                 (fst (Cursor s1) - fst (offset_wrapper s1) - offsetWidth (handle s1) / 2,
                  snd (Cursor s1) - snd (offset_wrapper s1) - offsetHeight (handle s1) / 2)
                 False))"

definition stopTap :: "dragdealer \<Rightarrow> dragdealer" where
  "stopTap s =
     (if disabled s \<or> \<not> tapping s then s
      else (let s1 = s\<lparr>tapping := False\<rparr>
            in setTargetValue s1 (value_current s1) False))"

definition startDrag :: "dragdealer \<Rightarrow> dragdealer" where
  "startDrag s =
     (if disabled s then s
      else (let s1 = setWrapperOffset (s\<lparr>dragging := True\<rparr>)
            in callDragStartCallback
                 (s1\<lparr>dragStartPosition := Cursor s1,
                     offset_mouse := (fst (Cursor s1) - fst (rect (handle s1)),
                                      snd (Cursor s1) - snd (rect (handle s1)))\<rparr>)))"

definition stopDrag :: "dragdealer \<Rightarrow> dragdealer" where
  "stopDrag s =
     (if disabled s \<or> \<not> dragging s then s
      else (let s1 = s\<lparr>dragging := False\<rparr>;
                deltaX = (if availWidth (bounds s1) = 0 then 0
                          else (fst (Cursor s1) - fst (dragStartPosition s1))
                                 / availWidth (bounds s1));
                deltaY = (if availHeight (bounds s1) = 0 then 0
                          else (snd (Cursor s1) - snd (dragStartPosition s1))
                                 / availHeight (bounds s1));
                target = value_current s1;
                target = (if opt_slide (options s1)
                          then (num2 (+) (fst target) (num2 (*) (fst (change s1)) (Some 4)),
                                num2 (+) (snd target) (num2 (*) (snd (change s1)) (Some 4)))
                          else target)
            in callDragStopCallback (setTargetValue s1 target False) (deltaX, deltaY)))"

subsection \<open>The animation loop\<close>

definition glide :: "dragdealer \<Rightarrow> bool \<times> dragdealer" where
  "glide s =
     (let diff = (num2 (-) (fst (value_target s)) (fst (value_current s)),
                  num2 (-) (snd (value_target s)) (snd (value_current s)))
      in if falsy (fst diff) \<and> falsy (snd diff) then (False, s)
         else if num_lt (Some (fst (valuePrecision s))) (num_abs (fst diff))
                 \<or> num_lt (Some (snd (valuePrecision s))) (num_abs (snd diff))
         then (let f = num2 min
                         (num2 (/) (num2 (*) (Some (opt_speed (options s))) (timeOffset s))
                            (Some 25))
                         (Some 1)
               in (True, s\<lparr>value_current :=
                             (num2 (+) (fst (value_current s)) (num2 (*) (fst diff) f),
                              num2 (+) (snd (value_current s)) (num2 (*) (snd diff) f))\<rparr>))
         else (True, s\<lparr>value_current := value_target s\<rparr>))"

definition animate :: "dragdealer \<Rightarrow> bool \<Rightarrow> bool \<Rightarrow> dragdealer" where
  "animate s direct first =
     (if direct \<and> \<not> dragging s then s
      else (let s1 = (if dragging s
                      then (let prevTarget = value_target s;
                                offset = (fst (Cursor s) - fst (offset_wrapper s)
                                            - fst (offset_mouse s),
                                          snd (Cursor s) - snd (offset_wrapper s)
                                            - snd (offset_mouse s));
                                s' = setTargetValueByOffset s offset (opt_loose (options s))
                            in s'\<lparr>change :=
                                    (num2 (-) (fst (value_target s')) (fst prevTarget),
                                     num2 (-) (snd (value_target s')) (snd prevTarget))\<rparr>)
                      else s);
                s2 = (if dragging s1 \<or> first
                      then s1\<lparr>value_current := value_target s1\<rparr> else s1);
                g = (if dragging s2 then (True, s2) else glide s2)
            in if dragging s2 \<or> fst g \<or> first
               then callAnimationCallback (updateOffsetFromValue (snd g))
               else snd g))"

definition animateWithRequestAnimationFrame :: "dragdealer \<Rightarrow> jsnum \<Rightarrow> dragdealer" where
  "animateWithRequestAnimationFrame s time =
     animate
       (if \<not> falsy time
        then s\<lparr>timeOffset := (if \<not> falsy (timeStamp s) then num2 (-) time (timeStamp s)
                               else Some 0),
               timeStamp := time\<rparr>
        else s\<lparr>timeOffset := Some 25\<rparr>)
       False False"

subsection \<open>Geometry and construction\<close>

definition calculateBounds :: "dragdealer \<Rightarrow> dd_bounds" where
  "calculateBounds s =
     (let top' = opt_top (options s);
          bottom' = - opt_bottom (options s) + offsetHeight (wrapper s);
          left' = opt_left (options s);
          right' = - opt_right (options s) + offsetWidth (wrapper s)
      in \<lparr> b_top = top', b_bottom = bottom', b_left = left', b_right = right',
           availWidth = (right' - left') - offsetWidth (handle s),
           availHeight = (bottom' - top') - offsetHeight (handle s) \<rparr>)"

definition calculateValuePrecision :: "dragdealer \<Rightarrow> real \<times> real" where
  "calculateValuePrecision s =
     (let xPrecision = (if opt_xPrecision (options s) \<noteq> 0 then opt_xPrecision (options s)
                        else \<bar>availWidth (bounds s)\<bar>);
          yPrecision = (if opt_yPrecision (options s) \<noteq> 0 then opt_yPrecision (options s)
                        else \<bar>availHeight (bounds s)\<bar>)
      in (if xPrecision \<noteq> 0 then 1 / xPrecision else 0,
          if yPrecision \<noteq> 0 then 1 / yPrecision else 0))"

definition reflow :: "dragdealer \<Rightarrow> dragdealer" where
  "reflow s =
     (let s1 = setWrapperOffset s;
          s2 = s1\<lparr>bounds := calculateBounds s1\<rparr>;
          s3 = s2\<lparr>valuePrecision := calculateValuePrecision s2\<rparr>
      in updateOffsetFromValue s3)"

text \<open>
  \<^verbatim>\<open>init\<close> fills every field; \<open>bounds\<close> and \<open>valuePrecision\<close> are first assigned by the
  \<^verbatim>\<open>reflow\<close> that \<^verbatim>\<open>init\<close> ends with, before anything reads them, and
  \<^verbatim>\<open>timeOffset\<close>, \<^verbatim>\<open>timeStamp\<close> and \<^verbatim>\<open>disabled\<close> start undefined.
\<close>

definition init :: "dd_options \<Rightarrow> wrapper_element \<Rightarrow> element \<Rightarrow> real \<times> real \<Rightarrow> bool \<Rightarrow> dragdealer" where
  "init opts w h cur ts =
     (let s = \<lparr> options = opts, wrapper = w, handle = h,
                value_prev = (Some (- 1), Some (- 1)),
                value_current = (Some (opt_x opts), Some (opt_y opts)),
                value_target = (Some (opt_x opts), Some (opt_y opts)),
                offset_wrapper = (0, 0), offset_mouse = (0, 0),
                offset_prev = (Some (- 999999), Some (- 999999)),
                offset_current = (Some 0, Some 0), offset_target = (Some 0, Some 0),
                dragStartPosition = (0, 0), change = (Some 0, Some 0),
                stepRatios = calculateStepRatios (opt_steps opts),
                activity = False, dragging = False, tapping = False, disabled = False,
                bounds = \<lparr> b_top = 0, b_bottom = 0, b_left = 0, b_right = 0,
                           availWidth = 0, availHeight = 0 \<rparr>,
                valuePrecision = (0, 0), timeOffset = None, timeStamp = None,
                Cursor = cur, transformSupported = ts,
                style_transform = None, style_left = None, style_top = None,
                calls = [], listening = False \<rparr>;
          s1 = reflow s
      in if opt_disabled opts then disable s1 else s1)"

definition bindEventListeners :: "dragdealer \<Rightarrow> dragdealer" where
  "bindEventListeners s = animate (s\<lparr>listening := True\<rparr>) False True"

definition unbindEventListeners :: "dragdealer \<Rightarrow> dragdealer" where
  "unbindEventListeners s = s\<lparr>listening := False\<rparr>"

definition getHandleElement :: "wrapper_element \<Rightarrow> element option" where
  "getHandleElement w = (case handles w of [] \<Rightarrow> None | h # _ \<Rightarrow> Some h)"

subsection \<open>The constructor, and the instance with no wrapper or handle\<close>

text \<open>
  The constructor stores the options, looks the wrapper up, and returns before
  \<^verbatim>\<open>init\<close> and \<^verbatim>\<open>bindEventListeners\<close> when the wrapper or the handle is missing. What
  is left then is an object with \<^verbatim>\<open>options\<close> and perhaps \<^verbatim>\<open>wrapper\<close>, and none of the
  fields \<^verbatim>\<open>init\<close> assigns: \<^verbatim>\<open>value\<close>, \<^verbatim>\<open>offset\<close>, \<^verbatim>\<open>bounds\<close>, \<^verbatim>\<open>stepRatios\<close>
  and \<^verbatim>\<open>handle\<close> are undefined. The flags \<^verbatim>\<open>disabled\<close>, \<^verbatim>\<open>dragging\<close> and
  \<^verbatim>\<open>tapping\<close> are undefined too, which reads as false, until a method assigns them.
\<close>

datatype js_error = TypeError

datatype 'a outcome = Returns 'a | Throws js_error 'a

record inert_dragdealer =
  i_options :: dd_options
  i_wrapper :: "wrapper_element option"
  i_disabled :: bool
  i_dragging :: bool
  i_tapping :: bool

datatype wrapper_arg = ById string | ByElement "wrapper_element option"

definition getWrapperElement :: "(string \<Rightarrow> wrapper_element option) \<Rightarrow> wrapper_arg \<Rightarrow> wrapper_element option" where
  \<comment> \<open>a string is looked up with \<^verbatim>\<open>document.getElementById\<close>, anything else is returned as it is\<close>
  "getWrapperElement document w = (case w of ById i \<Rightarrow> document i | ByElement e \<Rightarrow> e)"

definition Dragdealer :: "(string \<Rightarrow> wrapper_element option) \<Rightarrow> wrapper_arg \<Rightarrow> dd_options
    \<Rightarrow> real \<times> real \<Rightarrow> bool \<Rightarrow> inert_dragdealer + dragdealer" where
  "Dragdealer document w opts cur ts =
     (case getWrapperElement document w of
        None \<Rightarrow> Inl \<lparr> i_options = opts, i_wrapper = None,
                       i_disabled = False, i_dragging = False, i_tapping = False \<rparr>
      | Some e \<Rightarrow>
          (case getHandleElement e of
             None \<Rightarrow> Inl \<lparr> i_options = opts, i_wrapper = Some e,
                            i_disabled = False, i_dragging = False, i_tapping = False \<rparr>
           | Some h \<Rightarrow> Inr (bindEventListeners (init opts e h cur ts))))"

text \<open>
  The methods on such an instance, each followed to its first read of a property of an
  undefined field, which throws a \<^verbatim>\<open>TypeError\<close>; assignments made before that point stay.
\<close>

definition getValue_inert :: "inert_dragdealer \<Rightarrow> js_error + jsnum \<times> jsnum" where
  \<comment> \<open>\<^verbatim>\<open>this.value.target\<close> with \<^verbatim>\<open>this.value\<close> undefined\<close>
  "getValue_inert i = Inl TypeError"

definition setValue_inert :: "inert_dragdealer \<Rightarrow> jsnum \<Rightarrow> jsnum \<Rightarrow> bool \<Rightarrow> inert_dragdealer outcome" where
  \<comment> \<open>\<^verbatim>\<open>setTargetValue\<close>: \<^verbatim>\<open>getProperValue\<close> reads \<^verbatim>\<open>this.stepRatios[i]\<close> when it snaps,
      and otherwise \<^verbatim>\<open>groupCopy(this.value.target, target)\<close> reads \<^verbatim>\<open>this.value.target\<close>\<close>
  "setValue_inert i x y snap = Throws TypeError i"

definition reflow_inert :: "inert_dragdealer \<Rightarrow> inert_dragdealer outcome" where
  \<comment> \<open>\<^verbatim>\<open>setWrapperOffset\<close> assigns to \<^verbatim>\<open>this.offset.wrapper\<close>\<close>
  "reflow_inert i = Throws TypeError i"

definition enable_inert :: "inert_dragdealer \<Rightarrow> inert_dragdealer outcome" where
  \<comment> \<open>\<^verbatim>\<open>this.disabled = false\<close>, then \<^verbatim>\<open>this.handle.className\<close>\<close>
  "enable_inert i = Throws TypeError (i\<lparr>i_disabled := False\<rparr>)"

definition disable_inert :: "inert_dragdealer \<Rightarrow> inert_dragdealer outcome" where
  \<comment> \<open>\<^verbatim>\<open>this.disabled = true\<close>, then \<^verbatim>\<open>this.handle.className\<close>\<close>
  "disable_inert i = Throws TypeError (i\<lparr>i_disabled := True\<rparr>)"

definition startDrag_inert :: "inert_dragdealer \<Rightarrow> inert_dragdealer outcome" where
  \<comment> \<open>\<^verbatim>\<open>this.dragging = true\<close>, then \<^verbatim>\<open>setWrapperOffset\<close>\<close>
  "startDrag_inert i =
     (if i_disabled i then Returns i else Throws TypeError (i\<lparr>i_dragging := True\<rparr>))"

definition stopDrag_inert :: "inert_dragdealer \<Rightarrow> inert_dragdealer outcome" where
  \<comment> \<open>\<^verbatim>\<open>this.dragging = false\<close>, then \<^verbatim>\<open>this.bounds.availWidth\<close>\<close>
  "stopDrag_inert i =
     (if i_disabled i \<or> \<not> i_dragging i then Returns i
      else Throws TypeError (i\<lparr>i_dragging := False\<rparr>))"

definition startTap_inert :: "inert_dragdealer \<Rightarrow> inert_dragdealer outcome" where
  \<comment> \<open>\<^verbatim>\<open>this.tapping = true\<close>, then \<^verbatim>\<open>setWrapperOffset\<close>\<close>
  "startTap_inert i =
     (if i_disabled i \<or> \<not> opt_tapping (i_options i) then Returns i
      else Throws TypeError (i\<lparr>i_tapping := True\<rparr>))"

definition stopTap_inert :: "inert_dragdealer \<Rightarrow> inert_dragdealer outcome" where
  \<comment> \<open>\<^verbatim>\<open>this.tapping = false\<close>, then \<^verbatim>\<open>this.value.current\<close>\<close>
  "stopTap_inert i =
     (if i_disabled i \<or> \<not> i_tapping i then Returns i
      else Throws TypeError (i\<lparr>i_tapping := False\<rparr>))"

definition getRatiosByOffsets_inert :: "inert_dragdealer \<Rightarrow> real \<times> real \<Rightarrow> js_error + real \<times> real" where
  \<comment> \<open>\<^verbatim>\<open>this.bounds.availWidth\<close>\<close>
  "getRatiosByOffsets_inert i grp = Inl TypeError"

definition unbindEventListeners_inert :: "inert_dragdealer \<Rightarrow> inert_dragdealer outcome" where
  \<comment> \<open>\<^verbatim>\<open>removeEventListener(this.handle, ...)\<close> reads \<^verbatim>\<open>element.removeEventListener\<close>\<close>
  "unbindEventListeners_inert i = Throws TypeError i"

section \<open>Navi: buttons and the active index\<close>

text \<open>
  A button is identified by a number; \<open>btns\<close> is the jQuery collection the navigator was
  given. A callback is recorded as present or \<^verbatim>\<open>null\<close>. \<open>bound\<close> lists the buttons that
  carry the navigator's five handlers. Every callback invocation is appended to
  \<open>navi_calls\<close> with the \<^verbatim>\<open>prevIndex\<close> and \<^verbatim>\<open>index\<close> it was passed and with the
  \<^verbatim>\<open>activateIndex\<close> the instance held while the callback ran.
\<close>

datatype navi_cb = Mouseover | Mouseout | Mousedown | Mouseup | Click | Activate

datatype navi_call = NaviCall navi_cb "int option" int int

record navi =
  btns :: "nat list"
  mouseoverCallback :: bool
  mouseoutCallback :: bool
  mousedownCallback :: bool
  mouseupCallback :: bool
  clickCallback :: bool
  activateCallback :: bool
  currentIndex :: int
  activateIndex :: int
  bound :: "nat list"
  navi_calls :: "navi_call list"

record navi_options =
  o_btns :: "nat list"
  o_mouseoverCallback :: bool
  o_mouseoutCallback :: bool
  o_mousedownCallback :: bool
  o_mouseupCallback :: bool
  o_clickCallback :: bool
  o_activateCallback :: bool

definition Navi :: "navi_options \<Rightarrow> navi" where
  "Navi opts =
     \<lparr> btns = o_btns opts,
       mouseoverCallback = o_mouseoverCallback opts, mouseoutCallback = o_mouseoutCallback opts,
       mousedownCallback = o_mousedownCallback opts, mouseupCallback = o_mouseupCallback opts,
       clickCallback = o_clickCallback opts, activateCallback = o_activateCallback opts,
       currentIndex = 0, activateIndex = 0, bound = [], navi_calls = [] \<rparr>"

definition setBtnsEventHandler :: "'a navi_scheme \<Rightarrow> bool \<Rightarrow> 'a navi_scheme" where
  "setBtnsEventHandler n flag =
     (if flag then n\<lparr>bound := bound n @ btns n\<rparr>
      else n\<lparr>bound := filter (\<lambda>b. b \<notin> set (btns n)) (bound n)\<rparr>)"

definition Navi_init :: "'a navi_scheme \<Rightarrow> 'a navi_scheme" where
  "Navi_init n = setBtnsEventHandler n True"

fun index_in :: "nat list \<Rightarrow> nat \<Rightarrow> int" where
  \<comment> \<open>\<^verbatim>\<open>$(btns).index(btn)\<close>: the position of the element, or -1\<close>
  "index_in [] b = - 1"
| "index_in (x # xs) b =
     (if x = b then 0 else (if index_in xs b < 0 then - 1 else index_in xs b + 1))"

definition call :: "'a navi_scheme \<Rightarrow> bool \<Rightarrow> navi_cb \<Rightarrow> int option \<Rightarrow> int \<Rightarrow> 'a navi_scheme" where
  \<comment> \<open>\<^verbatim>\<open>if (callback) callback.call(null, {...})\<close>\<close>
  "call n present cb prev idx =
     (if present then n\<lparr>navi_calls := navi_calls n @ [NaviCall cb prev idx (activateIndex n)]\<rparr>
      else n)"

definition mouseoverBtnEventHandler :: "'a navi_scheme \<Rightarrow> nat \<Rightarrow> 'a navi_scheme" where
  "mouseoverBtnEventHandler n btn =
     (let n1 = n\<lparr>currentIndex := index_in (btns n) btn + 1\<rparr>
      in call n1 (mouseoverCallback n1) Mouseover None (currentIndex n1))"

definition mouseoutBtnEventHandler :: "'a navi_scheme \<Rightarrow> nat \<Rightarrow> 'a navi_scheme" where
  "mouseoutBtnEventHandler n btn =
     call n (mouseoutCallback n) Mouseout None (index_in (btns n) btn + 1)"

definition mousedownBtnEventHandler :: "'a navi_scheme \<Rightarrow> nat \<Rightarrow> 'a navi_scheme" where
  "mousedownBtnEventHandler n btn =
     call n (mousedownCallback n) Mousedown None (index_in (btns n) btn + 1)"

definition mouseupBtnEventHandler :: "'a navi_scheme \<Rightarrow> nat \<Rightarrow> 'a navi_scheme" where
  "mouseupBtnEventHandler n btn =
     call n (mouseupCallback n) Mouseup None (index_in (btns n) btn + 1)"

definition clickBtnEventHandler :: "'a navi_scheme \<Rightarrow> nat \<Rightarrow> 'a navi_scheme" where
  "clickBtnEventHandler n btn =
     (let prevIndex = activateIndex n;
          idx = index_in (btns n) btn + 1;
          n1 = call n (clickCallback n) Click (Some prevIndex) idx;
          n2 = call n1 (activateCallback n1) Activate (Some prevIndex) idx
      in n2\<lparr>currentIndex := idx, activateIndex := idx\<rparr>)"

text \<open>
  An event on a button reaches a handler only while the button carries it.
\<close>

definition dispatch :: "'a navi_scheme \<Rightarrow> navi_cb \<Rightarrow> nat \<Rightarrow> 'a navi_scheme" where
  "dispatch n ev btn =
     (if btn \<notin> set (bound n) then n
      else (case ev of
              Mouseover \<Rightarrow> mouseoverBtnEventHandler n btn
            | Mouseout \<Rightarrow> mouseoutBtnEventHandler n btn
            | Mousedown \<Rightarrow> mousedownBtnEventHandler n btn
            | Mouseup \<Rightarrow> mouseupBtnEventHandler n btn
            | Click \<Rightarrow> clickBtnEventHandler n btn
            | Activate \<Rightarrow> n))"

definition Navi_getBtn :: "'a navi_scheme \<Rightarrow> int \<Rightarrow> nat option" where
  "Navi_getBtn n i =
     (let idx = i - 1
      in if idx < 0 \<or> idx \<ge> int (length (btns n)) then None
         else Some (btns n ! nat idx))"

definition Navi_getActivatedIndex :: "'a navi_scheme \<Rightarrow> int" where
  "Navi_getActivatedIndex n = activateIndex n"

definition Navi_activate :: "'a navi_scheme \<Rightarrow> int \<Rightarrow> 'a navi_scheme" where
  "Navi_activate n i =
     (let idx = (if i \<le> 0 \<or> i > int (length (btns n)) then 0 else i);
          n1 = call n (activateCallback n) Activate (Some (activateIndex n)) idx
      in n1\<lparr>activateIndex := idx\<rparr>)"

definition Navi_destroy :: "'a navi_scheme \<Rightarrow> 'a navi_scheme" where
  "Navi_destroy n =
     (setBtnsEventHandler n False)
       \<lparr>btns := [], mouseoverCallback := False, mouseoutCallback := False,
        clickCallback := False, activateCallback := False,
        currentIndex := 0, activateIndex := 0\<rparr>"

section \<open>HorizontalSlideNavi: a navigator on a drag engine\<close>

text \<open>
  The class extends \<^verbatim>\<open>Navi\<close> by the drag engine it builds in \<^verbatim>\<open>setInstance\<close>, the flag
  \<^verbatim>\<open>isDraggable\<close> and a resize listener on the window. The drag engine is \<^verbatim>\<open>null\<close>
  before \<^verbatim>\<open>init\<close> and after \<^verbatim>\<open>destroy\<close>; once built it is either of the two kinds of
  instance the \<^verbatim>\<open>Dragdealer\<close> constructor returns.
\<close>

fun map_outcome :: "('a \<Rightarrow> 'b) \<Rightarrow> 'a outcome \<Rightarrow> 'b outcome" where
  "map_outcome f (Returns a) = Returns (f a)"
| "map_outcome f (Throws e a) = Throws e (f a)"

fun and_then :: "'a outcome \<Rightarrow> ('a \<Rightarrow> 'a outcome) \<Rightarrow> 'a outcome" where
  \<comment> \<open>the next statement runs only when the one before returned\<close>
  "and_then (Returns a) f = f a"
| "and_then (Throws e a) f = Throws e a"

record hs_options =
  hs_disabled :: bool
  hs_slide :: bool
  hs_loose :: bool
  hs_speed :: real
  hs_css3 :: bool
  hs_dragStartCallback :: bool
  hs_dragStopCallback :: bool
  hs_slideEndCallback :: bool

definition hs_defaults :: hs_options where
  "hs_defaults = \<lparr> hs_disabled = False, hs_slide = True, hs_loose = True, hs_speed = 1 / 4,
       hs_css3 = True, hs_dragStartCallback = False, hs_dragStopCallback = False,
       hs_slideEndCallback = False \<rparr>"

record hsnavi = navi +
  option :: hs_options
  isDraggable :: bool
  dragDealer :: "(inert_dragdealer + dragdealer) option"
  resizeBound :: bool

text \<open>
  What the navigator reads from the page: the element \<^verbatim>\<open>$(opt.wrap).get(0)\<close>, the width
  \<^verbatim>\<open>$(opt.wrap).width()\<close> (undefined when nothing matches), the handle's
  \<^verbatim>\<open>outerWidth()\<close>, the pointer position and the support for CSS transforms.
\<close>

record slide_dom =
  sd_wrap :: "wrapper_element option"
  sd_wrap_width :: jsnum
  sd_handle_outerWidth :: real
  sd_cursor :: "real \<times> real"
  sd_transform :: bool

definition HorizontalSlideNavi :: "navi_options \<Rightarrow> hs_options \<Rightarrow> hsnavi" where
  "HorizontalSlideNavi nopts opt =
     navi.extend (Navi nopts)
       \<lparr> option = opt, isDraggable = False, dragDealer = None, resizeBound = False \<rparr>"

definition HorizontalSlideNavi_setInstance :: "slide_dom \<Rightarrow> hsnavi \<Rightarrow> hsnavi" where
  "HorizontalSlideNavi_setInstance page nv =
     nv\<lparr>dragDealer := Some
          (Dragdealer (\<lambda>i. None) (ByElement (sd_wrap page))
             (defaults\<lparr>opt_disabled := hs_disabled (option nv), opt_horizontal := True,
                       opt_vertical := False, opt_slide := hs_slide (option nv),
                       opt_loose := hs_loose (option nv), opt_speed := hs_speed (option nv),
                       opt_css3 := hs_css3 (option nv),
                       opt_dragStartCallback := hs_dragStartCallback (option nv),
                       opt_dragStopCallback := hs_dragStopCallback (option nv),
                       opt_callback := hs_slideEndCallback (option nv)\<rparr>)
             (sd_cursor page) (sd_transform page))\<rparr>"

definition setResizeEventHandler :: "hsnavi \<Rightarrow> bool \<Rightarrow> hsnavi" where
  "setResizeEventHandler nv flag = nv\<lparr>resizeBound := flag\<rparr>"

text \<open>
  Calls into the drag engine. On \<^verbatim>\<open>null\<close> every call throws; otherwise the call goes to
  the method of the instance at hand.
\<close>

definition on_dragDealer :: "hsnavi \<Rightarrow> (inert_dragdealer \<Rightarrow> inert_dragdealer outcome)
    \<Rightarrow> (dragdealer \<Rightarrow> dragdealer) \<Rightarrow> hsnavi outcome" where
  "on_dragDealer nv f g =
     (case dragDealer nv of
        None \<Rightarrow> Throws TypeError nv
      | Some (Inl i) \<Rightarrow> map_outcome (\<lambda>i'. nv\<lparr>dragDealer := Some (Inl i')\<rparr>) (f i)
      | Some (Inr s) \<Rightarrow> Returns (nv\<lparr>dragDealer := Some (Inr (g s))\<rparr>))"

definition HorizontalSlideNavi_enable :: "hsnavi \<Rightarrow> hsnavi outcome" where
  "HorizontalSlideNavi_enable nv = on_dragDealer nv enable_inert enable"

definition HorizontalSlideNavi_disable :: "hsnavi \<Rightarrow> hsnavi outcome" where
  "HorizontalSlideNavi_disable nv = on_dragDealer nv disable_inert disable"

definition HorizontalSlideNavi_setRatioX :: "hsnavi \<Rightarrow> real \<Rightarrow> hsnavi outcome" where
  "HorizontalSlideNavi_setRatioX nv ratioX =
     on_dragDealer nv (\<lambda>i. setValue_inert i (Some ratioX) (Some 0) False)
       (\<lambda>s. setValue s (Some ratioX) (Some 0) False)"

definition HorizontalSlideNavi_setX :: "hsnavi \<Rightarrow> real \<Rightarrow> hsnavi outcome" where
  \<comment> \<open>\<^verbatim>\<open>getOffsetRatioByPosition(x)\<close>, then \<^verbatim>\<open>setValue(offset[0], offset[1])\<close>\<close>
  "HorizontalSlideNavi_setX nv x =
     on_dragDealer nv
       (\<lambda>i. case getRatiosByOffsets_inert i (x, 0) of
               Inl e \<Rightarrow> Throws e i
             | Inr r \<Rightarrow> setValue_inert i (Some (fst r)) (Some (snd r)) False)
       (\<lambda>s. setValue s (Some (fst (getRatiosByOffsets s (x, 0))))
                       (Some (snd (getRatiosByOffsets s (x, 0)))) False)"

definition dd_disabled :: "inert_dragdealer + dragdealer \<Rightarrow> bool" where
  "dd_disabled d = (case d of Inl i \<Rightarrow> i_disabled i | Inr s \<Rightarrow> disabled s)"

definition HorizontalSlideNavi_resize :: "slide_dom \<Rightarrow> hsnavi \<Rightarrow> hsnavi outcome" where
  "HorizontalSlideNavi_resize page nv =
     (case dragDealer nv of
        None \<Rightarrow> Returns nv
      | Some d \<Rightarrow>
          if (case d of Inl i \<Rightarrow> False
              | Inr s \<Rightarrow> num_lt (sd_wrap_width page) (Some (sd_handle_outerWidth page)))
          then and_then (HorizontalSlideNavi_enable nv)
                 (\<lambda>nv'. Returns (nv'\<lparr>isDraggable := True\<rparr>))
          else and_then
                 (and_then
                    (if \<not> dd_disabled d then HorizontalSlideNavi_disable nv else Returns nv)
                    (\<lambda>nv'. HorizontalSlideNavi_setRatioX nv' 0))
                 (\<lambda>nv'. Returns (nv'\<lparr>isDraggable := False\<rparr>)))"

definition HorizontalSlideNavi_init :: "slide_dom \<Rightarrow> hsnavi \<Rightarrow> hsnavi outcome" where
  "HorizontalSlideNavi_init page nv =
     HorizontalSlideNavi_resize page
       (setResizeEventHandler (HorizontalSlideNavi_setInstance page (Navi_init nv)) True)"

definition HorizontalSlideNavi_destroy :: "hsnavi \<Rightarrow> hsnavi outcome" where
  "HorizontalSlideNavi_destroy nv =
     (let nv1 = (setResizeEventHandler nv False)\<lparr>isDraggable := False\<rparr>
      in and_then
           (case dragDealer nv1 of
              None \<Rightarrow> Returns nv1
            | Some (Inl i) \<Rightarrow>
                map_outcome (\<lambda>i'. nv1\<lparr>dragDealer := Some (Inl i')\<rparr>)
                  (unbindEventListeners_inert i)
            | Some (Inr s) \<Rightarrow> Returns (nv1\<lparr>dragDealer := Some (Inr (unbindEventListeners s))\<rparr>))
           (\<lambda>nv2. Returns (Navi_destroy (nv2\<lparr>dragDealer := None\<rparr>))))"

section \<open>DesktopPaginationNavi: a window of four buttons\<close>

text \<open>
  Modelled from the spec: \<^verbatim>\<open>getLoopedLastIndex(length, displayNum, firstIndex)\<close> is called
  by \<^verbatim>\<open>setInstance\<close> and \<^verbatim>\<open>switchBtns\<close> and is not among the sources. The specification
  gives the right edge of the window as \<open>(left + displayCount - 1) mod N\<close>, 1-based, wrapping
  to 1 rather than 0: \<open>mod1\<close> is that 1-based remainder, with values from 1 to \<open>N\<close>.
\<close>

definition mod1 :: "int \<Rightarrow> nat \<Rightarrow> int" where
  "mod1 x N = (x - 1) mod int N + 1"

definition getLoopedLastIndex :: "nat \<Rightarrow> nat \<Rightarrow> int \<Rightarrow> int" where
  "getLoopedLastIndex N displayNum firstIndex = mod1 (firstIndex + int displayNum - 1) N"

text \<open>
  \<^verbatim>\<open>isIndexInLoop\<close> and \<^verbatim>\<open>getReverseLoopedFirstIndex\<close> are not among the sources either,
  and the specification does not say what they compute: \<^verbatim>\<open>switchBtns\<close> takes them as
  parameters.
\<close>

type_synonym isIndexInLoop_fn = "nat \<Rightarrow> nat \<Rightarrow> int \<Rightarrow> int \<Rightarrow> bool"
type_synonym getReverseLoopedFirstIndex_fn = "nat \<Rightarrow> nat \<Rightarrow> int \<Rightarrow> int"

definition DISPLAY_BTN_NUM :: nat where
  "DISPLAY_BTN_NUM = 4"

datatype direction = Prev | Next

text \<open>
  What the navigator reads from the page: the list items under \<^verbatim>\<open>> .btns\<close> and the
  buttons \<^verbatim>\<open>.btns li a\<close>. \<open>wrap_found\<close> is \<^verbatim>\<open>_.wrap.length > 0\<close> for the collection the
  constructor stored. \<^verbatim>\<open>prevBtn\<close> and \<^verbatim>\<open>nextBtn\<close> are \<^verbatim>\<open>null\<close> or a jQuery collection;
  \<open>prevBound\<close> and \<open>nextBound\<close> say that their click handlers are attached. \<open>dn_events\<close>
  are the \<^verbatim>\<open>CLICK_PREVNEXT_BTN\<close> events triggered so far. Widths and positions of the list
  items are presentation and are left out.
\<close>

record desktop_dom =
  dd_wrap :: bool
  dd_items :: nat
  dd_btns :: "nat list"

record desktop_navi =
  firstIndex :: int
  dn_clickCallback :: bool
  wrap_found :: bool
  dn_navi :: "navi option"
  naviListItems :: nat
  prevBtn :: bool
  nextBtn :: bool
  prevBound :: bool
  nextBound :: bool
  edgeBtnsIndex :: "int \<times> int"
  dn_resizeBound :: bool
  dn_events :: "(direction \<times> int) list"

definition DesktopPaginationNavi :: "desktop_dom \<Rightarrow> bool \<Rightarrow> int \<Rightarrow> desktop_navi" where
  "DesktopPaginationNavi page cb first =
     \<lparr> firstIndex = first, dn_clickCallback = cb, wrap_found = dd_wrap page,
       dn_navi = None, naviListItems = 0, prevBtn = False, nextBtn = False,
       prevBound = False, nextBound = False, edgeBtnsIndex = (0, 0),
       dn_resizeBound = False, dn_events = [] \<rparr>"

definition setNavi :: "desktop_dom \<Rightarrow> desktop_navi \<Rightarrow> desktop_navi" where
  "setNavi page d =
     d\<lparr>dn_navi := Some (Navi_init (Navi
          \<lparr> o_btns = dd_btns page, o_mouseoverCallback = False, o_mouseoutCallback = False,
            o_mousedownCallback = False, o_mouseupCallback = False,
            o_clickCallback = True, o_activateCallback = True \<rparr>))\<rparr>"

definition setPrevNextBtn :: "desktop_navi \<Rightarrow> desktop_navi" where
  "setPrevNextBtn d = d\<lparr>prevBtn := True, nextBtn := True, prevBound := True, nextBound := True\<rparr>"

definition DesktopPaginationNavi_setInstance :: "desktop_dom \<Rightarrow> desktop_navi \<Rightarrow> desktop_navi" where
  "DesktopPaginationNavi_setInstance page d =
     (if \<not> wrap_found d then d
      else (let d1 = d\<lparr>naviListItems := dd_items page\<rparr>;
                d2 = (if naviListItems d1 > DISPLAY_BTN_NUM
                      then d1\<lparr>edgeBtnsIndex :=
                              (firstIndex d1,
                               getLoopedLastIndex (naviListItems d1) DISPLAY_BTN_NUM
                                 (firstIndex d1))\<rparr>
                      else d1)
            in (setPrevNextBtn (setNavi page d2))\<lparr>dn_resizeBound := True\<rparr>))"

definition DesktopPaginationNavi_init :: "desktop_dom \<Rightarrow> desktop_navi \<Rightarrow> desktop_navi" where
  "DesktopPaginationNavi_init page d = DesktopPaginationNavi_setInstance page d"

definition clickPrevBtn :: "desktop_navi \<Rightarrow> desktop_navi outcome" where
  \<comment> \<open>the click handler \<^verbatim>\<open>setPrevNextBtn\<close> puts on the previous button\<close>
  "clickPrevBtn d =
     (if \<not> prevBound d then Returns d
      else (case dn_navi d of
              None \<Rightarrow> Throws TypeError d
            | Some n \<Rightarrow>
                (let index = Navi_getActivatedIndex n - 1;
                     index = (if index \<le> 0 then int (length (btns n)) else index)
                 in Returns (d\<lparr>dn_events := dn_events d @ [(Prev, index)]\<rparr>))))"

definition clickNextBtn :: "desktop_navi \<Rightarrow> desktop_navi outcome" where
  \<comment> \<open>the click handler \<^verbatim>\<open>setPrevNextBtn\<close> puts on the next button\<close>
  "clickNextBtn d =
     (if \<not> nextBound d then Returns d
      else (case dn_navi d of
              None \<Rightarrow> Throws TypeError d
            | Some n \<Rightarrow>
                (let index = Navi_getActivatedIndex n + 1;
                     index = (if index > int (length (btns n)) then 1 else index)
                 in Returns (d\<lparr>dn_events := dn_events d @ [(Next, index)]\<rparr>))))"

definition DesktopPaginationNavi_destroy :: "desktop_navi \<Rightarrow> desktop_navi outcome" where
  "DesktopPaginationNavi_destroy d =
     (let d1 = d\<lparr>dn_resizeBound := False\<rparr>;
          d2 = (case dn_navi d1 of None \<Rightarrow> d1
                | Some n \<Rightarrow> d1\<lparr>dn_navi := Some (Navi_destroy n)\<rparr>)\<lparr>dn_navi := None\<rparr>;
          d3 = d2\<lparr>naviListItems := 0\<rparr>
      in if \<not> prevBtn d3 then Throws TypeError d3
         else (let d4 = d3\<lparr>prevBound := False, prevBtn := False\<rparr>
               in if \<not> nextBtn d4 then Throws TypeError d4
                  else Returns (d4\<lparr>nextBound := False, nextBtn := False\<rparr>)))"

definition DesktopPaginationNavi_activate :: "desktop_navi \<Rightarrow> int \<Rightarrow> desktop_navi" where
  "DesktopPaginationNavi_activate d i =
     (case dn_navi d of None \<Rightarrow> d | Some n \<Rightarrow> d\<lparr>dn_navi := Some (Navi_activate n i)\<rparr>)"


definition switchBtns :: "isIndexInLoop_fn \<Rightarrow> getReverseLoopedFirstIndex_fn
    \<Rightarrow> desktop_navi \<Rightarrow> direction option \<Rightarrow> int \<Rightarrow> desktop_navi outcome" where
  "switchBtns isIndexInLoop getReverseLoopedFirstIndex d dir i =
     (if naviListItems d \<le> DISPLAY_BTN_NUM then Returns d
      else (case dir of
              None \<Rightarrow> Returns d
            | Some dr \<Rightarrow>
                if isIndexInLoop (naviListItems d) DISPLAY_BTN_NUM (fst (edgeBtnsIndex d)) i
                then Returns d
                else (case dn_navi d of
                        None \<Rightarrow> Throws TypeError d
                      | Some n \<Rightarrow>
                          (case dr of
                             Prev \<Rightarrow> Returns (d\<lparr>edgeBtnsIndex :=
                                 (getReverseLoopedFirstIndex (naviListItems d) DISPLAY_BTN_NUM i,
                                  i)\<rparr>)
                           | Next \<Rightarrow> Returns (d\<lparr>edgeBtnsIndex :=
                                 (i, getLoopedLastIndex (naviListItems d) DISPLAY_BTN_NUM i)\<rparr>)))))"

section \<open>Pagination: one navigator at a time\<close>

text \<open>
  The breakpoint table holds pixel widths; an absent or zero entry is falsy. The page is
  what the controller and its navigators read from the document and the window at the
  moment of a call. \<open>triggered\<close> lists the indices of the \<^verbatim>\<open>CLICK_PAGE_BTN\<close> events
  triggered so far; \<open>mobileBtnsBound\<close> says that the click handlers of
  \<^verbatim>\<open>.btn-prev-mobile\<close> and \<^verbatim>\<open>.btn-next-mobile\<close> are attached. The field
  \<^verbatim>\<open>currentIndex\<close> of the controller is \<open>pg_currentIndex\<close>.
\<close>

record breakpoints =
  bp_tablet :: real
  bp_pc :: real
  bp_max :: real

definition BREAKPOINTS :: breakpoints where
  "BREAKPOINTS = \<lparr> bp_tablet = 640, bp_pc = 960, bp_max = 1340 \<rparr>"

record page_dom =
  innerWidth :: real
  pg_wrap :: bool
  mobile :: slide_dom
  mobile_items :: nat
  mobile_btns :: "nat list"
  mobile_btn_left :: "nat \<Rightarrow> real"
  desktop :: desktop_dom

record pagination =
  breakpoint :: breakpoints
  isMobileEnv :: bool
  slideNavi :: "hsnavi option"
  slideNaviListItems :: nat
  desktopNavi :: "desktop_navi option"
  pg_currentIndex :: int
  mobileBtnsBound :: bool
  pg_resizeBound :: bool
  triggered :: "int list"

definition Pagination :: "breakpoints \<Rightarrow> bool \<Rightarrow> pagination" where
  "Pagination bp mobileEnv =
     \<lparr> breakpoint = bp, isMobileEnv = mobileEnv, slideNavi = None, slideNaviListItems = 0,
       desktopNavi = None, pg_currentIndex = 1, mobileBtnsBound = False,
       pg_resizeBound = False, triggered = [] \<rparr>"

definition on_slideNavi :: "pagination \<Rightarrow> (hsnavi \<Rightarrow> hsnavi outcome) \<Rightarrow> pagination outcome" where
  \<comment> \<open>a method call on \<^verbatim>\<open>_.slideNavi\<close>, which throws on \<^verbatim>\<open>null\<close>\<close>
  "on_slideNavi p f =
     (case slideNavi p of
        None \<Rightarrow> Throws TypeError p
      | Some nv \<Rightarrow> map_outcome (\<lambda>nv'. p\<lparr>slideNavi := Some nv'\<rparr>) (f nv))"

definition Pagination_setSlideNavi :: "page_dom \<Rightarrow> pagination \<Rightarrow> pagination outcome" where
  "Pagination_setSlideNavi page p =
     (let p1 = p\<lparr>slideNaviListItems := mobile_items page\<rparr>;
          p2 = p1\<lparr>slideNavi := Some (HorizontalSlideNavi
                  \<lparr> o_btns = mobile_btns page, o_mouseoverCallback = False,
                    o_mouseoutCallback = False, o_mousedownCallback = False,
                    o_mouseupCallback = False, o_clickCallback = True,
                    o_activateCallback = True \<rparr> hs_defaults)\<rparr>
      in and_then (on_slideNavi p2 (HorizontalSlideNavi_init (mobile page)))
           (\<lambda>p3. if slideNaviListItems p3 \<le> 2 then on_slideNavi p3 HorizontalSlideNavi_disable
                  else Returns p3))"

definition Pagination_setDesktopNavi :: "page_dom \<Rightarrow> pagination \<Rightarrow> pagination" where
  "Pagination_setDesktopNavi page p =
     p\<lparr>desktopNavi := Some (DesktopPaginationNavi_init (desktop page)
          (DesktopPaginationNavi (desktop page) True (pg_currentIndex p)))\<rparr>"

definition Pagination_setSlidePositionByIndex :: "page_dom \<Rightarrow> pagination \<Rightarrow> int \<Rightarrow> pagination outcome" where
  "Pagination_setSlidePositionByIndex page p i =
     (case slideNavi p of
        None \<Rightarrow> Returns p
      | Some nv \<Rightarrow>
          (let p1 = p\<lparr>slideNavi := Some (Navi_activate nv i)\<rparr>;
               n = int (length (btns (Navi_activate nv i)))
           in if i < 1 \<or> i > n then Returns p1
              else (let prev = (if i \<le> 1 then 0 else i - 1);
                        next = (if i > n then 0 else i + 1)
                    in if prev = 0
                       then on_slideNavi p1 (\<lambda>nv'. HorizontalSlideNavi_setRatioX nv' 0)
                       else if next = 0
                       then on_slideNavi p1 (\<lambda>nv'. HorizontalSlideNavi_setRatioX nv' 1)
                       else (case Navi_getBtn (Navi_activate nv i) prev of
                               None \<Rightarrow> Returns p1
                             | Some b \<Rightarrow>
                                 on_slideNavi p1
                                   (\<lambda>nv'. HorizontalSlideNavi_setX nv' (- mobile_btn_left page b))))))"

definition leave_mobile :: "pagination \<Rightarrow> pagination outcome" where
  \<comment> \<open>\<^verbatim>\<open>if (_.slideNavi) { _.slideNavi.destroy(); _.slideNavi = null; }\<close>\<close>
  "leave_mobile p =
     (case slideNavi p of
        None \<Rightarrow> Returns p
      | Some nv \<Rightarrow>
          and_then (map_outcome (\<lambda>nv'. p\<lparr>slideNavi := Some nv'\<rparr>) (HorizontalSlideNavi_destroy nv))
            (\<lambda>p'. Returns (p'\<lparr>slideNavi := None\<rparr>)))"

definition leave_desktop :: "pagination \<Rightarrow> pagination outcome" where
  \<comment> \<open>\<^verbatim>\<open>if (_.desktopNavi) { _.desktopNavi.destroy(); _.desktopNavi = null; }\<close>\<close>
  "leave_desktop p =
     (case desktopNavi p of
        None \<Rightarrow> Returns p
      | Some d \<Rightarrow>
          and_then (map_outcome (\<lambda>d'. p\<lparr>desktopNavi := Some d'\<rparr>) (DesktopPaginationNavi_destroy d))
            (\<lambda>p'. Returns (p'\<lparr>desktopNavi := None\<rparr>)))"

definition to_desktop :: "page_dom \<Rightarrow> pagination \<Rightarrow> pagination outcome" where
  \<comment> \<open>the body shared by the \<^verbatim>\<open>max\<close> and the \<^verbatim>\<open>pc\<close> branch of \<^verbatim>\<open>resize\<close>\<close>
  "to_desktop page p =
     and_then (leave_mobile p)
       (\<lambda>p1. (let p2 = (if desktopNavi p1 = None then Pagination_setDesktopNavi page p1 else p1)
               in case desktopNavi p2 of
                    None \<Rightarrow> Throws TypeError p2
                  | Some d \<Rightarrow> Returns (p2\<lparr>desktopNavi :=
                        Some (DesktopPaginationNavi_activate d (pg_currentIndex p2))\<rparr>)))"

definition to_mobile :: "page_dom \<Rightarrow> bool \<Rightarrow> pagination \<Rightarrow> pagination outcome" where
  \<comment> \<open>the body of the \<^verbatim>\<open>tablet\<close> branch (\<open>tablet = True\<close>) and of the last branch of
      \<^verbatim>\<open>resize\<close>, which differ in the enabling or disabling of the drag engine\<close>
  "to_mobile page tablet p =
     and_then
       (and_then
          (and_then
             (and_then (leave_desktop p)
                (\<lambda>p1. if slideNavi p1 = None then Pagination_setSlideNavi page p1 else Returns p1))
             (\<lambda>p2. on_slideNavi p2 (\<lambda>nv. Returns (Navi_activate nv (pg_currentIndex p2)))))
          (\<lambda>p3. Pagination_setSlidePositionByIndex page p3 (pg_currentIndex p3)))
       (\<lambda>p4. if tablet
              then (if slideNaviListItems p4 > 2 then on_slideNavi p4 HorizontalSlideNavi_enable
                    else Returns p4)
              else on_slideNavi p4 HorizontalSlideNavi_disable)"

definition Pagination_resize :: "page_dom \<Rightarrow> pagination \<Rightarrow> pagination outcome" where
  "Pagination_resize page p =
     (if bp_max (breakpoint p) \<noteq> 0 \<and> innerWidth page \<ge> bp_max (breakpoint p)
      then to_desktop page p
      else if bp_pc (breakpoint p) \<noteq> 0 \<and> innerWidth page \<ge> bp_pc (breakpoint p)
      then to_desktop page p
      else if bp_tablet (breakpoint p) \<noteq> 0 \<and> innerWidth page \<ge> bp_tablet (breakpoint p)
      then to_mobile page True p
      else to_mobile page False p)"

definition clickPrevMobile :: "pagination \<Rightarrow> pagination outcome" where
  \<comment> \<open>the click handler \<^verbatim>\<open>setInstance\<close> puts on \<^verbatim>\<open>.btn-prev-mobile\<close>\<close>
  "clickPrevMobile p =
     (if \<not> mobileBtnsBound p then Returns p
      else (let idx = pg_currentIndex p;
                idx = (if idx \<le> 1 then 0 else idx - 1)
            in Returns (p\<lparr>triggered := triggered p @ [idx]\<rparr>)))"

definition clickNextMobile :: "pagination \<Rightarrow> pagination outcome" where
  \<comment> \<open>the click handler \<^verbatim>\<open>setInstance\<close> puts on \<^verbatim>\<open>.btn-next-mobile\<close>\<close>
  "clickNextMobile p =
     (if \<not> mobileBtnsBound p then Returns p
      else (case slideNavi p of
              None \<Rightarrow> Throws TypeError p
            | Some nv \<Rightarrow>
                (let idx = pg_currentIndex p;
                     idx = (if idx > int (length (btns nv)) then 0 else idx + 1)
                 in Returns (p\<lparr>triggered := triggered p @ [idx]\<rparr>))))"

text \<open>
  \<^verbatim>\<open>getResolution\<close> and \<^verbatim>\<open>isMobileResolution\<close> are not among the sources:
  \<^verbatim>\<open>setInstance\<close> takes the answer of
  \<^verbatim>\<open>isMobileResolution(getResolution(breakpoint, global))\<close> as its first argument.
\<close>

definition Pagination_setInstance :: "bool \<Rightarrow> page_dom \<Rightarrow> pagination \<Rightarrow> pagination outcome" where
  "Pagination_setInstance mobileResolution page p =
     and_then
       (if mobileResolution
        then and_then (Pagination_setSlideNavi page p)
               (\<lambda>p1. Returns (p1\<lparr>mobileBtnsBound := True\<rparr>))
        else Returns (Pagination_setDesktopNavi page p))
       (\<lambda>p2. Pagination_resize page (p2\<lparr>pg_resizeBound := True\<rparr>))"

definition Pagination_init :: "bool \<Rightarrow> page_dom \<Rightarrow> pagination \<Rightarrow> pagination outcome" where
  "Pagination_init mobileResolution page p =
     (if pg_wrap page then Pagination_setInstance mobileResolution page p else Returns p)"

definition clickSlideNaviBtn :: "pagination \<Rightarrow> nat \<Rightarrow> pagination" where
  \<comment> \<open>a click on a button of the mobile navigator: \<^verbatim>\<open>Navi\<close>'s click handler, with the
      \<^verbatim>\<open>clickCallback\<close> that \<^verbatim>\<open>setSlideNavi\<close> passed run at the point where the handler calls it\<close>
  "clickSlideNaviBtn p btn =
     (case slideNavi p of
        None \<Rightarrow> p
      | Some nv \<Rightarrow>
          if btn \<notin> set (bound nv) then p
          else (let i = index_in (btns nv) btn + 1;
                    p1 = (if i = Navi_getActivatedIndex nv then p
                          else p\<lparr>pg_currentIndex := i, triggered := triggered p @ [i]\<rparr>)
                in p1\<lparr>slideNavi := Some (clickBtnEventHandler nv btn)\<rparr>))"


section \<open>Reference notions and concrete instances\<close>

text \<open>
  \<open>clamp01\<close> is the clamping of a ratio to \<open>[0, 1]\<close>; \<open>is_closest_step N c v\<close> says that
  \<open>v\<close> is an entry of the \<open>N\<close>-step table at the least distance from \<open>c\<close>; \<open>snapping\<close> is
  the guard under which \<^verbatim>\<open>getProperValue\<close> replaces the clamped ratio by its closest step.
\<close>

definition clamp01 :: "real \<Rightarrow> real" where
  "clamp01 x = min (max x 0) 1"

definition is_closest_step :: "int \<Rightarrow> real \<Rightarrow> real \<Rightarrow> bool" where
  "is_closest_step N c v =
     (\<exists>k < nat N. v = real k / real_of_int (N - 1)
        \<and> (\<forall>i < nat N. \<bar>v - c\<bar> \<le> \<bar>real i / real_of_int (N - 1) - c\<bar>))"

definition snapping :: "dragdealer \<Rightarrow> bool" where
  "snapping s = (((\<not> dragging s \<and> \<not> tapping s) \<or> opt_snap (options s))
                 \<and> opt_steps (options s) > 1)"

text \<open>
  A concrete slider: a wrapper 200 wide and 50 high holding a handle 50 by 50, no padding,
  built by the constructor's two steps \<^verbatim>\<open>init\<close> and \<^verbatim>\<open>bindEventListeners\<close>.
\<close>

definition example_handle :: element where
  "example_handle = \<lparr> offsetWidth = 50, offsetHeight = 50, rect = (0, 0) \<rparr>"

definition example_wrapper :: wrapper_element where
  "example_wrapper = \<lparr> offsetWidth = 200, offsetHeight = 50, rect = (0, 0),
                         handles = [example_handle] \<rparr>"

definition example_slider :: "dd_options \<Rightarrow> dragdealer" where
  "example_slider opts = bindEventListeners (init opts example_wrapper example_handle (0, 0) True)"



text \<open>
  The release target as the specification words it: the extrapolated value, clamped to
  \<open>[0, 1]\<close>, or to the loose bounds when the \<^verbatim>\<open>loose\<close> option is on. It is compared
  with what \<^verbatim>\<open>stopDrag\<close> computes.
\<close>

definition claimed_release_target :: "dragdealer \<Rightarrow> jsnum \<times> jsnum" where
  "claimed_release_target s =
     (let e = (num2 (+) (fst (value_current s)) (num2 (*) (fst (change s)) (Some 4)),
               num2 (+) (snd (value_current s)) (num2 (*) (snd (change s)) (Some 4)))
      in if opt_loose (options s) then getLooseValue (s\<lparr>dragging := False\<rparr>) e
         else getProperValue (s\<lparr>dragging := False\<rparr>) e)"

definition dragged_loose_slider :: dragdealer where
  "dragged_loose_slider =
     animate ((startDrag (example_slider (defaults\<lparr>opt_loose := True\<rparr>)))\<lparr>Cursor := (135, 0)\<rparr>)
       False False"



text \<open>
  What \<^verbatim>\<open>new Dragdealer('simple-slider')\<close> leaves in a document that has no such element.
\<close>

definition missing_wrapper :: inert_dragdealer where
  "missing_wrapper = \<lparr> i_options = defaults, i_wrapper = None,
                         i_disabled = False, i_dragging = False, i_tapping = False \<rparr>"

text \<open>
  A navigator over three buttons with both callbacks, its second button active.
\<close>

definition three_buttons :: navi where
  "three_buttons =
     Navi_activate (Navi_init (Navi
       \<lparr> o_btns = [1, 2, 3], o_mouseoverCallback = False, o_mouseoutCallback = False,
         o_mousedownCallback = False, o_mouseupCallback = False,
         o_clickCallback = True, o_activateCallback = True \<rparr>)) 2"

text \<open>
  A page with four banners: a mobile strip 375 wide whose handle is 750 wide, and a desktop
  navigator with four buttons. \<open>wide_pages\<close> is the same page in a window 1024 wide.
\<close>

definition strip_wrapper :: wrapper_element where
  "strip_wrapper = \<lparr> offsetWidth = 375, offsetHeight = 40, rect = (0, 0),
       handles = [\<lparr> offsetWidth = 750, offsetHeight = 40, rect = (0, 0) \<rparr>] \<rparr>"

definition four_pages :: page_dom where
  "four_pages =
     \<lparr> innerWidth = 375, pg_wrap = True,
       mobile = \<lparr> sd_wrap = Some strip_wrapper, sd_wrap_width = Some 375,
                  sd_handle_outerWidth = 750, sd_cursor = (0, 0), sd_transform = True \<rparr>,
       mobile_items = 4, mobile_btns = [1, 2, 3, 4],
       mobile_btn_left = (\<lambda>b. 375 / 2 * (real b - 1)),
       desktop = \<lparr> dd_wrap = True, dd_items = 4, dd_btns = [11, 12, 13, 14] \<rparr> \<rparr>"

definition wide_pages :: page_dom where
  "wide_pages = four_pages\<lparr>innerWidth := 1024\<rparr>"



text \<open>
  The desktop navigator of \<open>wide_pages\<close> after \<^verbatim>\<open>init\<close>, and a desktop navigator over ten
  buttons whose first index is 1.
\<close>

definition four_desktop :: desktop_navi where
  "four_desktop =
     DesktopPaginationNavi_init (desktop wide_pages)
       (DesktopPaginationNavi (desktop wide_pages) True 1)"



section \<open>Properties\<close>

declare calculateStepRatios_loop.simps [simp del]
declare getClosestStep_loop.simps [simp del]

subsection \<open>The step table\<close>

lemma calculateStepRatios_loop_eq:
  "i \<le> nat steps \<Longrightarrow>
   calculateStepRatios_loop steps i (map (stepRatio steps) [0..<i])
     = map (stepRatio steps) [0..<nat steps]"
proof (induction "nat steps - i" arbitrary: i)
  case 0
  then have "i = nat steps" by simp
  then show ?case by (subst calculateStepRatios_loop.simps) auto
next
  case (Suc d)
  then have lt: "int i \<le> steps - 1" and le: "i + 1 \<le> nat steps"
    and d: "d = nat steps - (i + 1)" by linarith+
  have "array_put (map (stepRatio steps) [0..<i]) i
          (if steps > 1 then real i / real_of_int (steps - 1) else 0)
        = map (stepRatio steps) [0..<i + 1]"
    by (simp add: array_put_def stepRatio_def)
  with Suc.hyps(1)[OF d le] lt show ?case
    by (subst calculateStepRatios_loop.simps) simp
qed

lemma calculateStepRatios_eq:
  "calculateStepRatios steps = map (stepRatio steps) [0..<nat steps]"
proof (cases "steps \<ge> 1")
  case True
  then show ?thesis
    using calculateStepRatios_loop_eq[of 0 steps] by (simp add: calculateStepRatios_def)
next
  case False
  then show ?thesis by (simp add: calculateStepRatios_def)
qed

text \<open>
  C9. For every step count \<open>N > 1\<close> the step table has exactly \<open>N\<close> entries, the first
  is 0, the last is 1, entry \<open>i\<close> is \<open>i / (N - 1)\<close>, and the entries ascend.
\<close>

theorem step_table:
  assumes "1 < N"
  shows "length (calculateStepRatios N) = nat N
       \<and> hd (calculateStepRatios N) = Some 0
       \<and> last (calculateStepRatios N) = Some 1
       \<and> (\<forall>i < nat N. calculateStepRatios N ! i = Some (real i / real_of_int (N - 1)))
       \<and> (\<forall>i j. i \<le> j \<and> j < nat N \<longrightarrow>
             (\<exists>a b. calculateStepRatios N ! i = Some a
                  \<and> calculateStepRatios N ! j = Some b \<and> a \<le> b))"
proof -
  let ?T = "calculateStepRatios N"
  have T: "?T = map (stepRatio N) [0..<nat N]" by (rule calculateStepRatios_eq)
  have len: "length ?T = nat N" by (simp add: T)
  have nth: "?T ! i = Some (real i / real_of_int (N - 1))" if "i < nat N" for i
    using that assms by (simp add: T stepRatio_def)
  have ne: "?T \<noteq> []" using assms len by auto
  have h: "hd ?T = Some 0"
    using assms nth[of 0] ne by (simp add: hd_conv_nth)
  have "last ?T = ?T ! (nat N - 1)" using ne len by (simp add: last_conv_nth)
  also have "\<dots> = Some (real (nat N - 1) / real_of_int (N - 1))"
    using assms by (intro nth) simp
  also have "real (nat N - 1) = real_of_int (N - 1)" using assms by (simp add: of_nat_diff)
  finally have l: "last ?T = Some 1" using assms by simp
  have s: "\<exists>a b. ?T ! i = Some a \<and> ?T ! j = Some b \<and> a \<le> b"
    if "i \<le> j" "j < nat N" for i j
  proof -
    have "real i / real_of_int (N - 1) \<le> real j / real_of_int (N - 1)"
      using that assms by (intro divide_right_mono) simp_all
    with nth[of i] nth[of j] that show ?thesis by simp
  qed
  from len h l nth s show ?thesis by blast
qed

theorem step_table_witness:
  "(1::int) < 3 \<and> length (calculateStepRatios 3) = 3 \<and> hd (calculateStepRatios 3) = Some 0
   \<and> last (calculateStepRatios 3) = Some 1 \<and> calculateStepRatios 3 ! 1 = Some (1 / 2)"
  using step_table[of 3] by simp

subsection \<open>Closest steps and proper values\<close>

lemma array_get_table:
  "1 < N \<Longrightarrow> i < nat N \<Longrightarrow>
   array_get (calculateStepRatios N) i = Some (real i / real_of_int (N - 1))"
  by (simp add: array_get_def calculateStepRatios_eq stepRatio_def)

lemma getClosestStep_loop_spec:
  assumes N: "1 < N"
  shows "i \<le> nat N \<Longrightarrow> (\<forall>j < i. m \<le> \<bar>real j / real_of_int (N - 1) - x\<bar>) \<Longrightarrow>
     (k = 0 \<and> m = 1) \<or> (k < i \<and> m = \<bar>real k / real_of_int (N - 1) - x\<bar>) \<Longrightarrow>
     \<exists>m'. (\<forall>j < nat N. m' \<le> \<bar>real j / real_of_int (N - 1) - x\<bar>)
        \<and> ((getClosestStep_loop (calculateStepRatios N) N (Some x) i (Some m) k = 0 \<and> m' = 1)
           \<or> (getClosestStep_loop (calculateStepRatios N) N (Some x) i (Some m) k < nat N
              \<and> m' = \<bar>real (getClosestStep_loop (calculateStepRatios N) N (Some x) i (Some m) k)
                         / real_of_int (N - 1) - x\<bar>))"
proof (induction "nat N - i" arbitrary: i m k)
  case 0
  then have i: "i = nat N" by simp
  then have stop: "getClosestStep_loop (calculateStepRatios N) N (Some x) i (Some m) k = k"
    using N by (subst getClosestStep_loop.simps) simp
  show ?case unfolding stop using "0.prems" i by (intro exI[of _ m]) auto
next
  case (Suc d)
  then have lt: "int i \<le> N - 1" and i: "i < nat N" and le: "i + 1 \<le> nat N"
    and d: "d = nat N - (i + 1)" by linarith+
  let ?di = "\<bar>real i / real_of_int (N - 1) - x\<bar>"
  have dist: "num_abs (num2 (-) (array_get (calculateStepRatios N) i) (Some x)) = Some ?di"
    using N i by (simp add: array_get_table num_abs_def num2_def)
  show ?case
  proof (cases "?di < m")
    case True
    have step: "getClosestStep_loop (calculateStepRatios N) N (Some x) i (Some m) k
          = getClosestStep_loop (calculateStepRatios N) N (Some x) (i + 1) (Some ?di) i"
      using lt True by (subst getClosestStep_loop.simps) (simp add: dist num_lt_def)
    have a: "\<forall>j < i + 1. ?di \<le> \<bar>real j / real_of_int (N - 1) - x\<bar>"
      using Suc.prems(2) True by (auto simp: less_Suc_eq)
    have b: "(i = 0 \<and> ?di = 1) \<or> (i < i + 1 \<and> ?di = \<bar>real i / real_of_int (N - 1) - x\<bar>)"
      by simp
    show ?thesis unfolding step by (rule Suc.hyps(1)[OF d le a b])
  next
    case False
    have step: "getClosestStep_loop (calculateStepRatios N) N (Some x) i (Some m) k
          = getClosestStep_loop (calculateStepRatios N) N (Some x) (i + 1) (Some m) k"
      using lt False by (subst getClosestStep_loop.simps) (simp add: dist num_lt_def)
    have a: "\<forall>j < i + 1. m \<le> \<bar>real j / real_of_int (N - 1) - x\<bar>"
      using Suc.prems(2) False by (auto simp: less_Suc_eq)
    have b: "(k = 0 \<and> m = 1) \<or> (k < i + 1 \<and> m = \<bar>real k / real_of_int (N - 1) - x\<bar>)"
      using Suc.prems(3) by auto
    show ?thesis unfolding step by (rule Suc.hyps(1)[OF d le a b])
  qed
qed

lemma getClosestStep_closest:
  assumes N: "1 < opt_steps (options s)"
      and tbl: "stepRatios s = calculateStepRatios (opt_steps (options s))"
      and c: "0 \<le> c" "c \<le> 1"
  shows "\<exists>v. getClosestStep s (Some c) = Some v \<and> is_closest_step (opt_steps (options s)) c v"
proof -
  let ?N = "opt_steps (options s)"
  let ?k = "getClosestStep_loop (calculateStepRatios ?N) ?N (Some c) 0 (Some 1) 0"
  let ?r = "\<lambda>j. real j / real_of_int (?N - 1)"
  obtain m' where all: "\<forall>j < nat ?N. m' \<le> \<bar>?r j - c\<bar>"
    and k: "(?k = 0 \<and> m' = 1) \<or> (?k < nat ?N \<and> m' = \<bar>?r ?k - c\<bar>)"
    using getClosestStep_loop_spec[OF N, of 0 1 c 0] by auto
  have klt: "?k < nat ?N" using k N by auto
  have kmin: "\<forall>j < nat ?N. \<bar>?r ?k - c\<bar> \<le> \<bar>?r j - c\<bar>"
  proof (cases "?k = 0 \<and> m' = 1")
    case True
    then have "\<bar>?r ?k - c\<bar> \<le> 1" using c by simp
    with all True show ?thesis by force
  next
    case False
    with k all show ?thesis by auto
  qed
  have "getClosestStep s (Some c) = Some (?r ?k)"
    using klt N by (simp add: getClosestStep_def tbl array_get_table)
  moreover have "is_closest_step ?N c (?r ?k)"
    unfolding is_closest_step_def using klt kmin by blast
  ultimately show ?thesis by blast
qed



lemma getProperValue_spec:
  assumes tbl: "stepRatios s = calculateStepRatios (opt_steps (options s))"
  shows "\<exists>vx vy. getProperValue s (Some x, Some y) = (Some vx, Some vy)
       \<and> (if snapping s
            then is_closest_step (opt_steps (options s)) (clamp01 x) vx
               \<and> is_closest_step (opt_steps (options s)) (clamp01 y) vy
            else vx = clamp01 x \<and> vy = clamp01 y)"
proof (cases "snapping s")
  case True
  then have N: "1 < opt_steps (options s)" by (simp add: snapping_def)
  have cx: "0 \<le> clamp01 x" "clamp01 x \<le> 1" and cy: "0 \<le> clamp01 y" "clamp01 y \<le> 1"
    by (simp_all add: clamp01_def)
  obtain vx where vx: "getClosestStep s (Some (clamp01 x)) = Some vx"
      "is_closest_step (opt_steps (options s)) (clamp01 x) vx"
    using getClosestStep_closest[OF N tbl cx] by blast
  obtain vy where vy: "getClosestStep s (Some (clamp01 y)) = Some vy"
      "is_closest_step (opt_steps (options s)) (clamp01 y) vy"
    using getClosestStep_closest[OF N tbl cy] by blast
  have "getProperValue s (Some x, Some y) = (Some vx, Some vy)"
    using True vx(1) vy(1)
    by (simp add: getProperValue_def snapping_def getClosestSteps_def num2_def clamp01_def)
  with True vx(2) vy(2) show ?thesis by simp
next
  case False
  then have "getProperValue s (Some x, Some y) = (Some (clamp01 x), Some (clamp01 y))"
    by (auto simp add: getProperValue_def snapping_def num2_def clamp01_def)
  with False show ?thesis by simp
qed



lemma or_zero_Some: "or_zero (Some y) = Some y"
  by (simp add: or_zero_def falsy_def)

lemma setTargetValue_fields:
  "value_target (setTargetValue s v l) = (if l then getLooseValue s v else getProperValue s v)"
  "options (setTargetValue s v l) = options s"
  "stepRatios (setTargetValue s v l) = stepRatios s"
  "bounds (setTargetValue s v l) = bounds s"
  "value_current (setTargetValue s v l) = value_current s"
  by (simp_all add: setTargetValue_def callTargetCallback_def Let_def)

lemma callAnimationCallback_fields:
  "value_target (callAnimationCallback s) = value_target s"
  "value_current (callAnimationCallback s) = value_current s"
  "offset_current (callAnimationCallback s) = offset_current s"
  "offset_prev (callAnimationCallback s) = offset_prev s"
  by (simp_all add: callAnimationCallback_def Let_def)



lemma updateOffsetFromValue_fields:
  "value_target (updateOffsetFromValue s) = value_target s"
  "value_current (updateOffsetFromValue s) = value_current s"
  "offset_current (updateOffsetFromValue s) =
     (if \<not> opt_snap (options s) then getOffsetsByRatios s (value_current s)
      else getOffsetsByRatios s (getClosestSteps s (value_current s)))"
  by (simp_all add: updateOffsetFromValue_def renderHandlePosition_def Let_def)


text \<open>
  With the \<^verbatim>\<open>snap\<close> option on and no steps, \<^verbatim>\<open>updateOffsetFromValue\<close> takes the closest
  step from an empty table, and the offset is not a number.
\<close>

lemma snap_without_steps:
  assumes "opt_snap (options s)" "opt_steps (options s) \<le> 0"
      and "stepRatios s = calculateStepRatios (opt_steps (options s))"
  shows "offset_current (setValue s (Some x) (Some y) True) = (None, None)"
proof -
  let ?s1 = "setTargetValue s (Some x, Some y) False"
  let ?s2 = "?s1\<lparr>value_current := value_target ?s1\<rparr>"
  have o: "options ?s2 = options s" "stepRatios ?s2 = []"
    using assms by (simp_all add: setTargetValue_fields calculateStepRatios_def)
  have "getClosestStep ?s2 v = None" for v
    unfolding getClosestStep_def o by (simp add: array_get_def)
  then have "getOffsetsByRatios ?s2 (getClosestSteps ?s2 (value_current ?s2)) = (None, None)"
    by (simp add: getClosestSteps_def getOffsetsByRatios_def getOffsetByRatio_def num2_def
          num_round_def)
  then show ?thesis
    using assms(1)
    by (simp add: setValue_def or_zero_Some Let_def callAnimationCallback_fields
          updateOffsetFromValue_fields o)
qed

subsection \<open>What the operations keep\<close>

lemma updateOffsetFromValue_keeps:
  "options (updateOffsetFromValue s) = options s"
  "stepRatios (updateOffsetFromValue s) = stepRatios s"
  "dragging (updateOffsetFromValue s) = dragging s"
  "tapping (updateOffsetFromValue s) = tapping s"
  "disabled (updateOffsetFromValue s) = disabled s"
  "bounds (updateOffsetFromValue s) = bounds s"
  by (simp_all add: updateOffsetFromValue_def renderHandlePosition_def Let_def)

lemma callAnimationCallback_keeps:
  "options (callAnimationCallback s) = options s"
  "stepRatios (callAnimationCallback s) = stepRatios s"
  "dragging (callAnimationCallback s) = dragging s"
  "tapping (callAnimationCallback s) = tapping s"
  "disabled (callAnimationCallback s) = disabled s"
  "bounds (callAnimationCallback s) = bounds s"
  by (simp_all add: callAnimationCallback_def Let_def)

lemma setTargetValueByOffset_keeps:
  "options (setTargetValueByOffset s off l) = options s"
  "stepRatios (setTargetValueByOffset s off l) = stepRatios s"
  "dragging (setTargetValueByOffset s off l) = dragging s"
  "tapping (setTargetValueByOffset s off l) = tapping s"
  "disabled (setTargetValueByOffset s off l) = disabled s"
  "bounds (setTargetValueByOffset s off l) = bounds s"
  by (simp_all add: setTargetValueByOffset_def Let_def)

lemma glide_keeps:
  "options (snd (glide s)) = options s"
  "stepRatios (snd (glide s)) = stepRatios s"
  "dragging (snd (glide s)) = dragging s"
  "tapping (snd (glide s)) = tapping s"
  "disabled (snd (glide s)) = disabled s"
  "bounds (snd (glide s)) = bounds s"
  by (simp_all add: glide_def Let_def)

lemma animate_keeps:
  "options (animate s d f) = options s"
  "stepRatios (animate s d f) = stepRatios s"
  "dragging (animate s d f) = dragging s"
  "tapping (animate s d f) = tapping s"
  "disabled (animate s d f) = disabled s"
  "bounds (animate s d f) = bounds s"
  by (simp_all add: animate_def Let_def callAnimationCallback_keeps updateOffsetFromValue_keeps
        glide_keeps setTargetValueByOffset_keeps)

lemma reflow_keeps:
  "options (reflow s) = options s"
  "stepRatios (reflow s) = stepRatios s"
  "dragging (reflow s) = dragging s"
  "tapping (reflow s) = tapping s"
  "disabled (reflow s) = disabled s"
  by (simp_all add: reflow_def Let_def updateOffsetFromValue_keeps setWrapperOffset_def)

lemma init_fields:
  "options (init opts w h c t) = opts"
  "stepRatios (init opts w h c t) = calculateStepRatios (opt_steps opts)"
  "dragging (init opts w h c t) = False"
  "tapping (init opts w h c t) = False"
  "disabled (init opts w h c t) = opt_disabled opts"
  by (simp_all add: init_def Let_def reflow_keeps disable_def)

lemma example_slider_fields:
  "options (example_slider opts) = opts"
  "stepRatios (example_slider opts) = calculateStepRatios (opt_steps opts)"
  "dragging (example_slider opts) = False"
  "tapping (example_slider opts) = False"
  "disabled (example_slider opts) = opt_disabled opts"
  by (simp_all add: example_slider_def bindEventListeners_def animate_keeps init_fields)

lemma startDrag_fields:
  "options (startDrag s) = options s"
  "stepRatios (startDrag s) = stepRatios s"
  "dragging (startDrag s) = (if disabled s then dragging s else True)"
  "tapping (startDrag s) = tapping s"
  "disabled (startDrag s) = disabled s"
  by (simp_all add: startDrag_def Let_def callDragStartCallback_def setWrapperOffset_def)




subsection \<open>Releasing a drag\<close>

lemma callDragStopCallback_keeps:
  "value_target (callDragStopCallback s d) = value_target s"
  "dragging (callDragStopCallback s d) = dragging s"
  by (simp_all add: callDragStopCallback_def)

lemma setTargetValue_keeps:
  "dragging (setTargetValue s v l) = dragging s"
  "tapping (setTargetValue s v l) = tapping s"
  "disabled (setTargetValue s v l) = disabled s"
  by (simp_all add: setTargetValue_def callTargetCallback_def Let_def)

lemma stopDrag_target:
  assumes "\<not> disabled s" "dragging s" "opt_slide (options s)"
      and "value_current s = (Some cx, Some cy)" "change s = (Some dx, Some dy)"
  shows "value_target (stopDrag s)
           = getProperValue (s\<lparr>dragging := False\<rparr>) (Some (cx + dx * 4), Some (cy + dy * 4))"
    and "dragging (stopDrag s) = False"
  using assms
  by (simp_all add: stopDrag_def Let_def callDragStopCallback_keeps setTargetValue_fields
        setTargetValue_keeps num2_def)

text \<open>
  C2 (amended). When a drag ends with the \<^verbatim>\<open>slide\<close> option on, the new target is the
  current ratio plus four times the last frame's change on each axis, clamped to \<open>[0, 1]\<close>
  whatever the \<^verbatim>\<open>loose\<close> option says, and replaced by its closest step when \<open>steps > 1\<close>
  and either no tap is in progress or the \<^verbatim>\<open>snap\<close> option is on.
\<close>

theorem stopDrag_slide:
  assumes tbl: "stepRatios s = calculateStepRatios (opt_steps (options s))"
      and act: "\<not> disabled s" "dragging s" "opt_slide (options s)"
      and cur: "value_current s = (Some cx, Some cy)"
      and chg: "change s = (Some dx, Some dy)"
  shows "\<exists>vx vy. value_target (stopDrag s) = (Some vx, Some vy)
       \<and> (if (\<not> tapping s \<or> opt_snap (options s)) \<and> 1 < opt_steps (options s)
            then is_closest_step (opt_steps (options s)) (clamp01 (cx + dx * 4)) vx
               \<and> is_closest_step (opt_steps (options s)) (clamp01 (cy + dy * 4)) vy
            else vx = clamp01 (cx + dx * 4) \<and> vy = clamp01 (cy + dy * 4))
       \<and> \<not> dragging (stopDrag s)"
proof -
  let ?s1 = "s\<lparr>dragging := False\<rparr>"
  have tbl1: "stepRatios ?s1 = calculateStepRatios (opt_steps (options ?s1))"
    using tbl by simp
  have sn: "snapping ?s1 = ((\<not> tapping s \<or> opt_snap (options s)) \<and> 1 < opt_steps (options s))"
    by (simp add: snapping_def)
  have o: "options ?s1 = options s" by simp
  obtain vx vy
    where pv: "getProperValue ?s1 (Some (cx + dx * 4), Some (cy + dy * 4)) = (Some vx, Some vy)"
      and c: "if snapping ?s1
              then is_closest_step (opt_steps (options ?s1)) (clamp01 (cx + dx * 4)) vx
                 \<and> is_closest_step (opt_steps (options ?s1)) (clamp01 (cy + dy * 4)) vy
              else vx = clamp01 (cx + dx * 4) \<and> vy = clamp01 (cy + dy * 4)"
    using getProperValue_spec[OF tbl1, of "cx + dx * 4" "cy + dy * 4"] by blast
  from c have c': "if (\<not> tapping s \<or> opt_snap (options s)) \<and> 1 < opt_steps (options s)
            then is_closest_step (opt_steps (options s)) (clamp01 (cx + dx * 4)) vx
               \<and> is_closest_step (opt_steps (options s)) (clamp01 (cy + dy * 4)) vy
            else vx = clamp01 (cx + dx * 4) \<and> vy = clamp01 (cy + dy * 4)"
    unfolding sn o .
  have t: "value_target (stopDrag s) = (Some vx, Some vy)"
    using stopDrag_target(1)[OF act cur chg] pv by simp
  have d: "\<not> dragging (stopDrag s)"
    using stopDrag_target(2)[OF act cur chg] by simp
  from t c' d show ?thesis by blast
qed

lemma updateOffsetFromValue_dom:
  "wrapper (updateOffsetFromValue s) = wrapper s"
  "handle (updateOffsetFromValue s) = handle s"
  "Cursor (updateOffsetFromValue s) = Cursor s"
  "change (updateOffsetFromValue s) = change s"
  "offset_wrapper (updateOffsetFromValue s) = offset_wrapper s"
  "offset_mouse (updateOffsetFromValue s) = offset_mouse s"
  "dragStartPosition (updateOffsetFromValue s) = dragStartPosition s"
  "calls (updateOffsetFromValue s) = calls s"
  by (simp_all add: updateOffsetFromValue_def renderHandlePosition_def Let_def)

lemma callAnimationCallback_dom:
  "wrapper (callAnimationCallback s) = wrapper s"
  "handle (callAnimationCallback s) = handle s"
  "Cursor (callAnimationCallback s) = Cursor s"
  "change (callAnimationCallback s) = change s"
  "offset_wrapper (callAnimationCallback s) = offset_wrapper s"
  "offset_mouse (callAnimationCallback s) = offset_mouse s"
  "dragStartPosition (callAnimationCallback s) = dragStartPosition s"
  by (simp_all add: callAnimationCallback_def Let_def)

lemma glide_dom:
  "wrapper (snd (glide s)) = wrapper s"
  "handle (snd (glide s)) = handle s"
  "Cursor (snd (glide s)) = Cursor s"
  "value_target (snd (glide s)) = value_target s"
  "offset_wrapper (snd (glide s)) = offset_wrapper s"
  "offset_mouse (snd (glide s)) = offset_mouse s"
  "dragStartPosition (snd (glide s)) = dragStartPosition s"
  by (simp_all add: glide_def Let_def)

lemma animate_idle:
  assumes "\<not> dragging s"
  shows "wrapper (animate s d f) = wrapper s"
    "handle (animate s d f) = handle s"
    "Cursor (animate s d f) = Cursor s"
    "value_target (animate s d f) = value_target s"
    "offset_wrapper (animate s d f) = offset_wrapper s"
    "offset_mouse (animate s d f) = offset_mouse s"
    "dragStartPosition (animate s d f) = dragStartPosition s"
  using assms
  by (simp_all add: animate_def Let_def callAnimationCallback_dom callAnimationCallback_fields
        updateOffsetFromValue_dom updateOffsetFromValue_fields glide_dom)

lemma init_dom:
  "wrapper (init opts w h c t) = w"
  "handle (init opts w h c t) = h"
  "Cursor (init opts w h c t) = c"
  "value_target (init opts w h c t) = (Some (opt_x opts), Some (opt_y opts))"
  by (simp_all add: init_def Let_def reflow_def disable_def updateOffsetFromValue_dom
        updateOffsetFromValue_fields setWrapperOffset_def)

lemma init_bounds:
  "bounds (init opts w h c t) =
     \<lparr> b_top = opt_top opts, b_bottom = - opt_bottom opts + offsetHeight w,
       b_left = opt_left opts, b_right = - opt_right opts + offsetWidth w,
       availWidth = (- opt_right opts + offsetWidth w - opt_left opts) - offsetWidth h,
       availHeight = (- opt_bottom opts + offsetHeight w - opt_top opts) - offsetHeight h \<rparr>"
  by (simp add: init_def Let_def reflow_def disable_def updateOffsetFromValue_keeps
        setWrapperOffset_def calculateBounds_def)

lemma example_bounds:
  "bounds (example_slider opts) =
     \<lparr> b_top = opt_top opts, b_bottom = - opt_bottom opts + 50,
       b_left = opt_left opts, b_right = - opt_right opts + 200,
       availWidth = (- opt_right opts + 200 - opt_left opts) - 50,
       availHeight = (- opt_bottom opts + 50 - opt_top opts) - 50 \<rparr>"
  by (simp add: example_slider_def bindEventListeners_def animate_keeps init_bounds
        example_wrapper_def example_handle_def)

lemma example_slider_dom:
  "wrapper (example_slider opts) = example_wrapper"
  "handle (example_slider opts) = example_handle"
  "Cursor (example_slider opts) = (0, 0)"
  "value_target (example_slider opts) = (Some (opt_x opts), Some (opt_y opts))"
proof -
  have nd: "\<not> dragging ((init opts example_wrapper example_handle (0, 0) True)\<lparr>listening := True\<rparr>)"
    by (simp add: init_fields)
  show "wrapper (example_slider opts) = example_wrapper"
    "handle (example_slider opts) = example_handle"
    "Cursor (example_slider opts) = (0, 0)"
    "value_target (example_slider opts) = (Some (opt_x opts), Some (opt_y opts))"
    unfolding example_slider_def bindEventListeners_def animate_idle[OF nd]
    by (simp_all add: init_dom)
qed



lemma startDrag_dom:
  assumes "\<not> disabled s"
  shows "offset_wrapper (startDrag s) = rect (wrapper s)"
    "offset_mouse (startDrag s) = (fst (Cursor s) - fst (rect (handle s)),
                                   snd (Cursor s) - snd (rect (handle s)))"
    "dragStartPosition (startDrag s) = Cursor s"
    "value_target (startDrag s) = value_target s"
    "bounds (startDrag s) = bounds s"
  using assms
  by (simp_all add: startDrag_def Let_def callDragStartCallback_def setWrapperOffset_def)

lemma setTargetValueByOffset_target:
  "value_target (setTargetValueByOffset s off l) =
     (if l then getLooseValue s (Some (fst (getRatiosByOffsets s off)),
                                 Some (snd (getRatiosByOffsets s off)))
      else getProperValue s (Some (fst (getRatiosByOffsets s off)),
                             Some (snd (getRatiosByOffsets s off))))"
  "change (setTargetValueByOffset s off l) = change s"
  by (simp_all add: setTargetValueByOffset_def Let_def)

lemma animate_dragging:
  assumes "dragging s"
  shows "value_target (animate s d f) =
           value_target (setTargetValueByOffset s
              (fst (Cursor s) - fst (offset_wrapper s) - fst (offset_mouse s),
               snd (Cursor s) - snd (offset_wrapper s) - snd (offset_mouse s))
              (opt_loose (options s)))"
    and "value_current (animate s d f) = value_target (animate s d f)"
    and "change (animate s d f) =
           (num2 (-) (fst (value_target (animate s d f))) (fst (value_target s)),
            num2 (-) (snd (value_target (animate s d f))) (snd (value_target s)))"
  using assms
  by (simp_all add: animate_def Let_def callAnimationCallback_dom callAnimationCallback_fields
        updateOffsetFromValue_dom updateOffsetFromValue_fields setTargetValueByOffset_keeps)

lemma dragged_loose_slider_fields:
  "value_current dragged_loose_slider = (Some (9 / 10), Some 0)"
  "change dragged_loose_slider = (Some (9 / 10), Some 0)"
  "dragging dragged_loose_slider"
  "\<not> disabled dragged_loose_slider"
  "options dragged_loose_slider = defaults\<lparr>opt_loose := True\<rparr>"
  "stepRatios dragged_loose_slider = calculateStepRatios 0"
proof -
  let ?o = "defaults\<lparr>opt_loose := True\<rparr>"
  let ?s0 = "example_slider ?o"
  let ?s2 = "(startDrag ?s0)\<lparr>Cursor := (135, 0)\<rparr>"
  have o: "opt_loose ?o" "opt_steps ?o = 0" "\<not> opt_disabled ?o" "opt_x ?o = 0" "opt_y ?o = 0"
    "opt_left ?o = 0" "opt_right ?o = 0" "opt_top ?o = 0" "opt_bottom ?o = 0"
    by (simp_all add: defaults_def)
  let ?s1 = "startDrag ?s0"
  have nd: "\<not> disabled ?s0" by (simp add: example_slider_fields o)
  have d1: "dragging ?s1" "\<not> disabled ?s1" "options ?s1 = ?o"
    "stepRatios ?s1 = calculateStepRatios 0" "\<not> tapping ?s1"
    using nd by (simp_all add: startDrag_fields example_slider_fields o)
  have d2: "dragging ?s2" "\<not> disabled ?s2" "options ?s2 = ?o"
    "stepRatios ?s2 = calculateStepRatios 0"
    using d1 by simp_all
  have g1: "offset_wrapper ?s1 = (0, 0)" "offset_mouse ?s1 = (0, 0)"
    "value_target ?s1 = (Some 0, Some 0)"
    using nd by (simp_all add: startDrag_dom example_slider_dom o
                       example_wrapper_def example_handle_def)
  have b1: "availWidth (bounds ?s1) = 150" "availHeight (bounds ?s1) = 0"
    "b_left (bounds ?s1) = 0" "b_top (bounds ?s1) = 0"
    using nd by (simp_all add: startDrag_dom example_bounds o)
  have r: "getRatiosByOffsets ?s2 (135, 0) = (9 / 10, 0)"
    by (simp add: getRatiosByOffsets_def getRatioByOffset_def b1)
  have p: "getProperValue ?s2 (Some (9 / 10), Some 0) = (Some (9 / 10), Some 0)"
    by (simp add: getProperValue_def d1 o num2_def)
  have l: "getLooseValue ?s2 (Some (9 / 10), Some 0) = (Some (9 / 10), Some 0)"
    unfolding getLooseValue_def p by (simp add: num2_def)
  have c: "(fst (Cursor ?s2) - fst (offset_wrapper ?s2) - fst (offset_mouse ?s2),
            snd (Cursor ?s2) - snd (offset_wrapper ?s2) - snd (offset_mouse ?s2)) = (135, 0)"
    by (simp add: g1)
  have t: "value_target (animate ?s2 False False) = (Some (9 / 10), Some 0)"
    unfolding animate_dragging(1)[OF d2(1)] c setTargetValueByOffset_target d2(3)
    using o(1) by (simp add: r l)
  have t0: "value_target ?s2 = (Some 0, Some 0)" using g1 by simp
  show "value_current dragged_loose_slider = (Some (9 / 10), Some 0)"
    unfolding dragged_loose_slider_def animate_dragging(2)[OF d2(1)] by (rule t)
  show "change dragged_loose_slider = (Some (9 / 10), Some 0)"
    unfolding dragged_loose_slider_def animate_dragging(3)[OF d2(1)] t t0
    by (simp add: num2_def)
  show "dragging dragged_loose_slider" "\<not> disabled dragged_loose_slider"
    "options dragged_loose_slider = ?o"
    "stepRatios dragged_loose_slider = calculateStepRatios 0"
    unfolding dragged_loose_slider_def animate_keeps using d2 by simp_all
qed

theorem stopDrag_slide_witness:
  "stepRatios dragged_loose_slider = calculateStepRatios (opt_steps (options dragged_loose_slider))
   \<and> \<not> disabled dragged_loose_slider \<and> dragging dragged_loose_slider
   \<and> opt_slide (options dragged_loose_slider)
   \<and> value_current dragged_loose_slider = (Some (9 / 10), Some 0)
   \<and> change dragged_loose_slider = (Some (9 / 10), Some 0)
   \<and> value_target (stopDrag dragged_loose_slider) = (Some 1, Some 0)
   \<and> \<not> dragging (stopDrag dragged_loose_slider)"
proof -
  note f = dragged_loose_slider_fields
  have o: "opt_steps (options dragged_loose_slider) = 0" "opt_slide (options dragged_loose_slider)"
    by (simp_all add: f defaults_def)
  have h1: "stepRatios dragged_loose_slider
              = calculateStepRatios (opt_steps (options dragged_loose_slider))"
    by (simp add: f(6) o)
  have c: "clamp01 (9 / 10 + 9 / 10 * 4) = 1" "clamp01 (0 + 0 * 4) = 0"
    by (simp_all add: clamp01_def)
  from stopDrag_slide[OF h1 f(4) f(3) o(2) f(1) f(2)]
  have "value_target (stopDrag dragged_loose_slider) = (Some 1, Some 0)
        \<and> \<not> dragging (stopDrag dragged_loose_slider)"
    unfolding o c by auto
  with h1 f o show ?thesis by simp
qed

text \<open>
  C2 as stated fails with the \<^verbatim>\<open>loose\<close> option on: released at \<open>0.9\<close> after a frame that
  moved by \<open>0.9\<close>, the target is \<open>1\<close>, not the loose value \<open>15/8\<close> of the extrapolation.
\<close>

theorem stopDrag_slide_counterexample:
  "opt_loose (options dragged_loose_slider)
   \<and> value_target (stopDrag dragged_loose_slider) = (Some 1, Some 0)
   \<and> claimed_release_target dragged_loose_slider = (Some (15 / 8), Some 0)"
proof -
  have t: "value_target (stopDrag dragged_loose_slider)
        = getProperValue (dragged_loose_slider\<lparr>dragging := False\<rparr>) (Some (9 / 10 + 9 / 10 * 4), Some (0 + 0 * 4))"
    by (rule stopDrag_target(1)) (simp_all add: dragged_loose_slider_fields defaults_def)
  have o: "opt_steps (options dragged_loose_slider) = 0" "opt_loose (options dragged_loose_slider)"
    by (simp_all add: dragged_loose_slider_fields defaults_def)
  have p: "getProperValue (dragged_loose_slider\<lparr>dragging := False\<rparr>) (Some (9 / 2), Some 0) = (Some 1, Some 0)"
    by (simp add: getProperValue_def num2_def o)
  have e: "(num2 (+) (fst (value_current dragged_loose_slider))
              (num2 (*) (fst (change dragged_loose_slider)) (Some 4)),
            num2 (+) (snd (value_current dragged_loose_slider))
              (num2 (*) (snd (change dragged_loose_slider)) (Some 4))) = (Some (9 / 2), Some 0)"
    by (simp add: dragged_loose_slider_fields(1,2) num2_def)
  have l: "getLooseValue (dragged_loose_slider\<lparr>dragging := False\<rparr>) (Some (9 / 2), Some 0)
             = (Some (15 / 8), Some 0)"
    unfolding getLooseValue_def p by (simp add: num2_def)
  have c: "claimed_release_target dragged_loose_slider = (Some (15 / 8), Some 0)"
    unfolding claimed_release_target_def e using o(2) l by simp
  have t': "value_target (stopDrag dragged_loose_slider) = (Some 1, Some 0)"
    using t p by simp
  from t' c o(2) show ?thesis by simp
qed

subsection \<open>A range of zero\<close>






subsection \<open>A missing wrapper or handle\<close>

text \<open>
  C6 (amended). When the wrapper or the handle cannot be located, construction does not
  throw: it returns an instance on which \<^verbatim>\<open>init\<close> and \<^verbatim>\<open>bindEventListeners\<close> never ran.
  On that instance \<^verbatim>\<open>stopDrag\<close> and \<^verbatim>\<open>stopTap\<close> return without any effect, while
  \<^verbatim>\<open>setValue\<close>, \<^verbatim>\<open>getValue\<close>, \<^verbatim>\<open>reflow\<close>, \<^verbatim>\<open>enable\<close>, \<^verbatim>\<open>disable\<close>,
  \<^verbatim>\<open>startDrag\<close> and (with tapping allowed) \<^verbatim>\<open>startTap\<close> throw a \<^verbatim>\<open>TypeError\<close>.
\<close>

theorem missing_element_instance:
  assumes "getWrapperElement document w = None
         \<or> (\<exists>e. getWrapperElement document w = Some e \<and> handles e = [])"
  shows "\<exists>i. Dragdealer document w opts cur ts = Inl i
       \<and> stopDrag_inert i = Returns i
       \<and> stopTap_inert i = Returns i
       \<and> getValue_inert i = Inl TypeError
       \<and> setValue_inert i x y snap = Throws TypeError i
       \<and> reflow_inert i = Throws TypeError i
       \<and> enable_inert i = Throws TypeError (i\<lparr>i_disabled := False\<rparr>)
       \<and> disable_inert i = Throws TypeError (i\<lparr>i_disabled := True\<rparr>)
       \<and> startDrag_inert i = Throws TypeError (i\<lparr>i_dragging := True\<rparr>)
       \<and> startTap_inert i = (if opt_tapping opts then Throws TypeError (i\<lparr>i_tapping := True\<rparr>)
                              else Returns i)"
proof -
  obtain e where d: "Dragdealer document w opts cur ts =
      Inl \<lparr> i_options = opts, i_wrapper = e,
            i_disabled = False, i_dragging = False, i_tapping = False \<rparr>"
    using assms by (auto simp: Dragdealer_def getHandleElement_def)
  show ?thesis
    unfolding d
    by (intro exI[of _ "\<lparr> i_options = opts, i_wrapper = e,
            i_disabled = False, i_dragging = False, i_tapping = False \<rparr>"])
       (simp add: stopDrag_inert_def stopTap_inert_def
          getValue_inert_def setValue_inert_def reflow_inert_def enable_inert_def
          disable_inert_def startDrag_inert_def startTap_inert_def)
qed

theorem missing_element_instance_witness:
  "getWrapperElement (\<lambda>i. None) (ById ''simple-slider'') = None
   \<and> Dragdealer (\<lambda>i. None) (ById ''simple-slider'') defaults (0, 0) True = Inl missing_wrapper
   \<and> stopDrag_inert missing_wrapper = Returns missing_wrapper
   \<and> reflow_inert missing_wrapper = Throws TypeError missing_wrapper"
proof -
  have h: "getWrapperElement (\<lambda>i. None) (ById ''simple-slider'') = None"
    by (simp add: getWrapperElement_def)
  have d: "Dragdealer (\<lambda>i. None) (ById ''simple-slider'') defaults (0, 0) True = Inl missing_wrapper"
    by (simp add: Dragdealer_def h missing_wrapper_def)
  from missing_element_instance[of "\<lambda>i. None" "ById ''simple-slider''" defaults "(0, 0)" True]
    h d show ?thesis by auto
qed

text \<open>
  C6 as stated fails: on the instance left by a missing wrapper, \<^verbatim>\<open>getValue\<close> and
  \<^verbatim>\<open>setValue\<close> throw.
\<close>

theorem missing_element_instance_counterexample:
  "Dragdealer (\<lambda>i. None) (ById ''simple-slider'') defaults (0, 0) True = Inl missing_wrapper
   \<and> getValue_inert missing_wrapper = Inl TypeError
   \<and> setValue_inert missing_wrapper (Some 0) (Some 0) False = Throws TypeError missing_wrapper"
  by (simp add: Dragdealer_def getWrapperElement_def missing_wrapper_def getValue_inert_def
        setValue_inert_def)

subsection \<open>Activating a button\<close>

text \<open>
  C7. \<^verbatim>\<open>Navi.activate(index)\<close> sets the active index to \<open>index\<close> when
  \<open>1 \<le> index \<le> N\<close> and to 0 otherwise; the activate callback, when there is one, is
  called once with the previous index and the new index, while the instance still holds
  the previous index.
\<close>

theorem Navi_activate_index:
  "activateIndex (Navi_activate n i)
     = (if 1 \<le> i \<and> i \<le> int (length (btns n)) then i else 0)
   \<and> navi_calls (Navi_activate n i)
     = (if activateCallback n
        then navi_calls n @
               [NaviCall Activate (Some (activateIndex n))
                  (if 1 \<le> i \<and> i \<le> int (length (btns n)) then i else 0)
                  (activateIndex n)]
        else navi_calls n)"
  by (auto simp: Navi_activate_def call_def Let_def)

lemma three_buttons_fields:
  "btns three_buttons = [1, 2, 3]" "activateIndex three_buttons = 2"
  "activateCallback three_buttons"
  "navi_calls three_buttons = [NaviCall Activate (Some 0) 2 0]"
  by (simp_all add: three_buttons_def Navi_activate_def call_def Let_def Navi_init_def
        setBtnsEventHandler_def Navi_def)

theorem Navi_activate_index_witness:
  "activateIndex (Navi_activate three_buttons 3) = 3
   \<and> activateIndex (Navi_activate three_buttons 4) = 0
   \<and> activateIndex (Navi_activate three_buttons (- 1)) = 0
   \<and> navi_calls (Navi_activate three_buttons 3)
       = [NaviCall Activate (Some 0) 2 0, NaviCall Activate (Some 2) 3 2]"
  using Navi_activate_index[of three_buttons 3] Navi_activate_index[of three_buttons 4]
    Navi_activate_index[of three_buttons "- 1"]
  by (simp add: three_buttons_fields)

subsection \<open>The mobile previous and next buttons\<close>

text \<open>
  C10. With the handlers of the mobile previous and next buttons attached and the mobile
  navigator in place over \<open>N\<close> buttons, a click on the previous button triggers the
  page-change event with \<open>currentIndex - 1\<close>, or with 0 when \<open>currentIndex \<le> 1\<close>; a click on
  the next button triggers it with \<open>currentIndex + 1\<close> whenever \<open>currentIndex \<le> N\<close> (so with
  \<open>N + 1\<close> at \<open>currentIndex = N\<close>) and with 0 only when \<open>currentIndex > N\<close>.
\<close>

theorem mobile_prev_next:
  assumes "mobileBtnsBound p" "slideNavi p = Some nv"
  shows "clickPrevMobile p =
           Returns (p\<lparr>triggered := triggered p @
              [if pg_currentIndex p \<le> 1 then 0 else pg_currentIndex p - 1]\<rparr>)
       \<and> clickNextMobile p =
           Returns (p\<lparr>triggered := triggered p @
              [if pg_currentIndex p \<le> int (length (btns nv)) then pg_currentIndex p + 1
               else 0]\<rparr>)
       \<and> (pg_currentIndex p = int (length (btns nv)) \<longrightarrow>
            clickNextMobile p =
              Returns (p\<lparr>triggered := triggered p @ [int (length (btns nv)) + 1]\<rparr>))"
  using assms by (auto simp: clickPrevMobile_def clickNextMobile_def Let_def)

subsection \<open>The mobile navigator on a working drag engine\<close>

lemma on_dragDealer_live:
  "dragDealer nv = Some (Inr s) \<Longrightarrow>
   on_dragDealer nv f g = Returns (nv\<lparr>dragDealer := Some (Inr (g s))\<rparr>)"
  by (simp add: on_dragDealer_def)

lemma hs_ops_live:
  assumes "dragDealer nv = Some (Inr s)"
  shows "HorizontalSlideNavi_enable nv = Returns (nv\<lparr>dragDealer := Some (Inr (enable s))\<rparr>)"
    and "HorizontalSlideNavi_disable nv = Returns (nv\<lparr>dragDealer := Some (Inr (disable s))\<rparr>)"
    and "HorizontalSlideNavi_setRatioX nv r =
           Returns (nv\<lparr>dragDealer := Some (Inr (setValue s (Some r) (Some 0) False))\<rparr>)"
    and "HorizontalSlideNavi_setX nv x =
           Returns (nv\<lparr>dragDealer := Some (Inr
              (setValue s (Some (fst (getRatiosByOffsets s (x, 0))))
                 (Some (snd (getRatiosByOffsets s (x, 0)))) False))\<rparr>)"
  using assms
  by (simp_all add: HorizontalSlideNavi_enable_def HorizontalSlideNavi_disable_def
        HorizontalSlideNavi_setRatioX_def HorizontalSlideNavi_setX_def on_dragDealer_live)

lemma hs_resize_live:
  assumes "dragDealer nv = Some (Inr s)"
  shows "\<exists>s' b. HorizontalSlideNavi_resize page nv =
           Returns (nv\<lparr>dragDealer := Some (Inr s'), isDraggable := b\<rparr>)"
proof (cases "num_lt (sd_wrap_width page) (Some (sd_handle_outerWidth page))")
  case True
  then have "HorizontalSlideNavi_resize page nv =
      Returns (nv\<lparr>dragDealer := Some (Inr (enable s)), isDraggable := True\<rparr>)"
    using assms by (simp add: HorizontalSlideNavi_resize_def hs_ops_live(1))
  then show ?thesis by blast
next
  case False
  show ?thesis
  proof (cases "disabled s")
    case True
    have "HorizontalSlideNavi_resize page nv =
      Returns (nv\<lparr>dragDealer := Some (Inr (setValue s (Some 0) (Some 0) False)),
                  isDraggable := False\<rparr>)"
      using assms False True
      by (simp add: HorizontalSlideNavi_resize_def hs_ops_live(3) dd_disabled_def)
    then show ?thesis by blast
  next
    case nd: False
    have d1: "dragDealer (nv\<lparr>dragDealer := Some (Inr (disable s))\<rparr>) = Some (Inr (disable s))"
      by simp
    have "HorizontalSlideNavi_resize page nv =
      Returns (nv\<lparr>dragDealer := Some (Inr (setValue (disable s) (Some 0) (Some 0) False)),
                  isDraggable := False\<rparr>)"
      using assms False nd
      by (simp add: HorizontalSlideNavi_resize_def hs_ops_live(2) hs_ops_live(3)[OF d1]
            dd_disabled_def)
    then show ?thesis by blast
  qed
qed

lemma hs_init_live:
  assumes "sd_wrap page = Some w" "handles w = h # hs"
  shows "\<exists>s' b. HorizontalSlideNavi_init page nv =
           Returns ((Navi_init nv)\<lparr>dragDealer := Some (Inr s'), resizeBound := True,
                                   isDraggable := b\<rparr>)"
proof -
  let ?nv1 = "setResizeEventHandler (HorizontalSlideNavi_setInstance page (Navi_init nv)) True"
  obtain s0 where d: "dragDealer ?nv1 = Some (Inr s0)"
    using assms
    by (simp add: setResizeEventHandler_def HorizontalSlideNavi_setInstance_def Dragdealer_def
          getWrapperElement_def getHandleElement_def)
  from hs_resize_live[OF d, of page] obtain s' b where
    "HorizontalSlideNavi_resize page ?nv1 = Returns (?nv1\<lparr>dragDealer := Some (Inr s'), isDraggable := b\<rparr>)"
    by blast
  moreover have "?nv1\<lparr>dragDealer := Some (Inr s'), isDraggable := b\<rparr>
      = (Navi_init nv)\<lparr>dragDealer := Some (Inr s'), resizeBound := True, isDraggable := b\<rparr>"
    by (simp add: setResizeEventHandler_def HorizontalSlideNavi_setInstance_def)
  ultimately show ?thesis unfolding HorizontalSlideNavi_init_def by auto
qed

lemma on_slideNavi_Some:
  "slideNavi p = Some nv \<Longrightarrow>
   on_slideNavi p f = map_outcome (\<lambda>nv'. p\<lparr>slideNavi := Some nv'\<rparr>) (f nv)"
  by (simp add: on_slideNavi_def)

lemma navi_ops_keep_dragDealer:
  "dragDealer (Navi_activate nv i) = dragDealer nv"
  "dragDealer (Navi_init nv) = dragDealer nv"
  "btns (Navi_activate nv i) = btns nv"
  "btns (Navi_init nv) = btns nv"
  "activateIndex (Navi_init nv) = activateIndex nv"
  by (simp_all add: Navi_activate_def Navi_init_def call_def Let_def setBtnsEventHandler_def)

lemma setSlidePositionByIndex_live:
  assumes "slideNavi p = Some nv" "dragDealer nv = Some (Inr s)"
  shows "\<exists>s'. Pagination_setSlidePositionByIndex page p i =
           Returns (p\<lparr>slideNavi := Some ((Navi_activate nv i)\<lparr>dragDealer := Some (Inr s')\<rparr>)\<rparr>)"
proof -
  let ?nv1 = "Navi_activate nv i"
  let ?p1 = "p\<lparr>slideNavi := Some ?nv1\<rparr>"
  have d: "dragDealer ?nv1 = Some (Inr s)" using assms(2) by (simp add: navi_ops_keep_dragDealer)
  have sn: "slideNavi ?p1 = Some ?nv1" by simp
  have same: "?p1 = p\<lparr>slideNavi := Some (?nv1\<lparr>dragDealer := Some (Inr s)\<rparr>)\<rparr>"
    by (simp add: d[symmetric])
  have r: "\<exists>s'. on_slideNavi ?p1 (\<lambda>nv'. HorizontalSlideNavi_setRatioX nv' r) =
           Returns (p\<lparr>slideNavi := Some (?nv1\<lparr>dragDealer := Some (Inr s')\<rparr>)\<rparr>)" for r
    by (auto simp add: on_slideNavi_Some[OF sn] hs_ops_live(3)[OF d])
  have x: "\<exists>s'. on_slideNavi ?p1 (\<lambda>nv'. HorizontalSlideNavi_setX nv' x) =
           Returns (p\<lparr>slideNavi := Some (?nv1\<lparr>dragDealer := Some (Inr s')\<rparr>)\<rparr>)" for x
    by (auto simp add: on_slideNavi_Some[OF sn] hs_ops_live(4)[OF d])
  have stay: "\<exists>s'. Returns ?p1 =
           Returns (p\<lparr>slideNavi := Some (?nv1\<lparr>dragDealer := Some (Inr s')\<rparr>)\<rparr>)"
    using same by auto
  show ?thesis
    unfolding Pagination_setSlidePositionByIndex_def Let_def
    using assms(1) r x stay
    by (auto split: option.splits)
qed

lemma Navi_activate_fields:
  "activateIndex (Navi_activate n i) = (if 1 \<le> i \<and> i \<le> int (length (btns n)) then i else 0)"
  by (auto simp: Navi_activate_def call_def Let_def)

lemma to_mobile_live:
  assumes sn: "slideNavi p = Some nv0" and live: "dragDealer nv0 = Some (Inr s0)"
      and dn: "desktopNavi p = None"
  shows "\<exists>nv s. to_mobile page t p = Returns (p\<lparr>slideNavi := Some nv\<rparr>)
       \<and> dragDealer nv = Some (Inr s) \<and> btns nv = btns nv0
       \<and> activateIndex nv = (if 1 \<le> pg_currentIndex p
                                  \<and> pg_currentIndex p \<le> int (length (btns nv0))
                               then pg_currentIndex p else 0)"
proof -
  let ?k = "pg_currentIndex p"
  let ?nv1 = "Navi_activate nv0 ?k"
  let ?p2 = "p\<lparr>slideNavi := Some ?nv1\<rparr>"
  have a: "and_then (leave_desktop p)
             (\<lambda>p1. if slideNavi p1 = None then Pagination_setSlideNavi page p1 else Returns p1)
           = Returns p"
    using sn dn by (simp add: leave_desktop_def)
  have b: "on_slideNavi p (\<lambda>nv. Returns (Navi_activate nv (pg_currentIndex p))) = Returns ?p2"
    using sn by (simp add: on_slideNavi_def)
  have sn2: "slideNavi ?p2 = Some ?nv1" by simp
  have d1: "dragDealer ?nv1 = Some (Inr s0)" using live by (simp add: navi_ops_keep_dragDealer)
  obtain s1 where c: "Pagination_setSlidePositionByIndex page ?p2 ?k =
      Returns (p\<lparr>slideNavi := Some ((Navi_activate ?nv1 ?k)\<lparr>dragDealer := Some (Inr s1)\<rparr>)\<rparr>)"
    using setSlidePositionByIndex_live[OF sn2 d1, of page ?k] by auto
  let ?nv3 = "(Navi_activate ?nv1 ?k)\<lparr>dragDealer := Some (Inr s1)\<rparr>"
  let ?p4 = "p\<lparr>slideNavi := Some ?nv3\<rparr>"
  have sn4: "slideNavi ?p4 = Some ?nv3" and d3: "dragDealer ?nv3 = Some (Inr s1)"
    and k4: "pg_currentIndex ?p2 = ?k" "pg_currentIndex ?p4 = ?k"
    by simp_all
  have e: "on_slideNavi ?p4 HorizontalSlideNavi_enable
             = Returns (p\<lparr>slideNavi := Some (?nv3\<lparr>dragDealer := Some (Inr (enable s1))\<rparr>)\<rparr>)"
    by (simp add: on_slideNavi_Some[OF sn4] hs_ops_live(1)[OF d3])
  have f: "on_slideNavi ?p4 HorizontalSlideNavi_disable
             = Returns (p\<lparr>slideNavi := Some (?nv3\<lparr>dragDealer := Some (Inr (disable s1))\<rparr>)\<rparr>)"
    by (simp add: on_slideNavi_Some[OF sn4] hs_ops_live(2)[OF d3])
  have stay: "?p4 = p\<lparr>slideNavi := Some (?nv3\<lparr>dragDealer := Some (Inr s1)\<rparr>)\<rparr>" by simp
  have chain: "to_mobile page t p =
      (if t then (if slideNaviListItems ?p4 > 2 then on_slideNavi ?p4 HorizontalSlideNavi_enable
                  else Returns ?p4)
       else on_slideNavi ?p4 HorizontalSlideNavi_disable)"
    unfolding to_mobile_def a and_then.simps b k4 c ..
  have "\<exists>s. to_mobile page t p = Returns (p\<lparr>slideNavi := Some (?nv3\<lparr>dragDealer := Some (Inr s)\<rparr>)\<rparr>)"
  proof (cases t)
    case True
    note t = this
    show ?thesis
    proof (cases "slideNaviListItems ?p4 > 2")
      case True
      have "to_mobile page t p = on_slideNavi ?p4 HorizontalSlideNavi_enable"
        unfolding chain using t True by (simp only: if_True)
      then show ?thesis unfolding e by (rule exI)
    next
      case False
      have "to_mobile page t p = Returns ?p4"
        unfolding chain using t False by (simp only: if_True if_False)
      then have "to_mobile page t p
          = Returns (p\<lparr>slideNavi := Some (?nv3\<lparr>dragDealer := Some (Inr s1)\<rparr>)\<rparr>)"
        using stay by (simp only:)
      then show ?thesis by (rule exI)
    qed
  next
    case False
    have "to_mobile page t p = on_slideNavi ?p4 HorizontalSlideNavi_disable"
      unfolding chain using False by (simp only: if_False)
    then show ?thesis unfolding f by (rule exI)
  qed
  then obtain s where r: "to_mobile page t p
      = Returns (p\<lparr>slideNavi := Some (?nv3\<lparr>dragDealer := Some (Inr s)\<rparr>)\<rparr>)" by blast
  show ?thesis
  proof (intro exI conjI)
    show "to_mobile page t p
      = Returns (p\<lparr>slideNavi := Some (?nv3\<lparr>dragDealer := Some (Inr s)\<rparr>)\<rparr>)" by (rule r)
    show "dragDealer (?nv3\<lparr>dragDealer := Some (Inr s)\<rparr>) = Some (Inr s)" by simp
    show "btns (?nv3\<lparr>dragDealer := Some (Inr s)\<rparr>) = btns nv0"
      by (simp add: navi_ops_keep_dragDealer)
    show "activateIndex (?nv3\<lparr>dragDealer := Some (Inr s)\<rparr>)
       = (if 1 \<le> ?k \<and> ?k \<le> int (length (btns nv0)) then ?k else 0)"
      by (simp add: Navi_activate_fields navi_ops_keep_dragDealer)
  qed
qed

lemma setSlideNavi_live:
  assumes w: "sd_wrap (mobile page) = Some w" "handles w = h # hs"
  shows "\<exists>nv s. Pagination_setSlideNavi page p =
           Returns (p\<lparr>slideNaviListItems := mobile_items page, slideNavi := Some nv\<rparr>)
       \<and> dragDealer nv = Some (Inr s) \<and> btns nv = mobile_btns page
       \<and> bound nv = mobile_btns page"
proof -
  let ?nv0 = "HorizontalSlideNavi
                  \<lparr> o_btns = mobile_btns page, o_mouseoverCallback = False,
                    o_mouseoutCallback = False, o_mousedownCallback = False,
                    o_mouseupCallback = False, o_clickCallback = True,
                    o_activateCallback = True \<rparr> hs_defaults"
  let ?p2 = "p\<lparr>slideNaviListItems := mobile_items page, slideNavi := Some ?nv0\<rparr>"
  obtain s1 b where i: "HorizontalSlideNavi_init (mobile page) ?nv0 =
      Returns ((Navi_init ?nv0)\<lparr>dragDealer := Some (Inr s1), resizeBound := True, isDraggable := b\<rparr>)"
    using hs_init_live[OF w, of ?nv0] by blast
  let ?nv1 = "(Navi_init ?nv0)\<lparr>dragDealer := Some (Inr s1), resizeBound := True, isDraggable := b\<rparr>"
  let ?p3 = "p\<lparr>slideNaviListItems := mobile_items page, slideNavi := Some ?nv1\<rparr>"
  have sn2: "slideNavi ?p2 = Some ?nv0" by simp
  have a: "on_slideNavi ?p2 (HorizontalSlideNavi_init (mobile page)) = Returns ?p3"
    by (simp add: on_slideNavi_Some[OF sn2] i)
  have sn3: "slideNavi ?p3 = Some ?nv1" and d1: "dragDealer ?nv1 = Some (Inr s1)" by simp_all
  have c: "on_slideNavi ?p3 HorizontalSlideNavi_disable =
      Returns (p\<lparr>slideNaviListItems := mobile_items page,
                  slideNavi := Some (?nv1\<lparr>dragDealer := Some (Inr (disable s1))\<rparr>)\<rparr>)"
    by (simp add: on_slideNavi_Some[OF sn3] hs_ops_live(2)[OF d1])
  have stay: "?p3 = p\<lparr>slideNaviListItems := mobile_items page,
                  slideNavi := Some (?nv1\<lparr>dragDealer := Some (Inr s1)\<rparr>)\<rparr>" by simp
  have chain: "Pagination_setSlideNavi page p =
      (if slideNaviListItems ?p3 \<le> 2 then on_slideNavi ?p3 HorizontalSlideNavi_disable
       else Returns ?p3)"
    unfolding Pagination_setSlideNavi_def Let_def a and_then.simps ..
  have "\<exists>s. Pagination_setSlideNavi page p =
      Returns (p\<lparr>slideNaviListItems := mobile_items page,
                  slideNavi := Some (?nv1\<lparr>dragDealer := Some (Inr s)\<rparr>)\<rparr>)"
  proof (cases "slideNaviListItems ?p3 \<le> 2")
    case True
    have "Pagination_setSlideNavi page p = on_slideNavi ?p3 HorizontalSlideNavi_disable"
      unfolding chain using True by (simp only: if_True)
    then show ?thesis unfolding c by (rule exI)
  next
    case False
    have "Pagination_setSlideNavi page p = Returns ?p3"
      unfolding chain using False by (simp only: if_False)
    then have "Pagination_setSlideNavi page p =
      Returns (p\<lparr>slideNaviListItems := mobile_items page,
                  slideNavi := Some (?nv1\<lparr>dragDealer := Some (Inr s1)\<rparr>)\<rparr>)"
      using stay by (simp only:)
    then show ?thesis by (rule exI)
  qed
  then obtain s where r: "Pagination_setSlideNavi page p =
      Returns (p\<lparr>slideNaviListItems := mobile_items page,
                  slideNavi := Some (?nv1\<lparr>dragDealer := Some (Inr s)\<rparr>)\<rparr>)" by blast
  show ?thesis
  proof (intro exI conjI)
    show "Pagination_setSlideNavi page p =
      Returns (p\<lparr>slideNaviListItems := mobile_items page,
                  slideNavi := Some (?nv1\<lparr>dragDealer := Some (Inr s)\<rparr>)\<rparr>)" by (rule r)
    show "dragDealer (?nv1\<lparr>dragDealer := Some (Inr s)\<rparr>) = Some (Inr s)" by simp
    show "btns (?nv1\<lparr>dragDealer := Some (Inr s)\<rparr>) = mobile_btns page"
      "bound (?nv1\<lparr>dragDealer := Some (Inr s)\<rparr>) = mobile_btns page"
      by (simp_all add: Navi_init_def setBtnsEventHandler_def HorizontalSlideNavi_def Navi_def
            navi.defs)
  qed
qed

subsection \<open>Leaving the mobile navigator for the desktop one\<close>


lemma desktop_init_found:
  assumes "dd_wrap page"
  shows "dn_navi (DesktopPaginationNavi_init page (DesktopPaginationNavi page cb k))
           = Some (Navi_init (Navi
                \<lparr> o_btns = dd_btns page, o_mouseoverCallback = False,
                  o_mouseoutCallback = False, o_mousedownCallback = False,
                  o_mouseupCallback = False, o_clickCallback = True,
                  o_activateCallback = True \<rparr>))"
    and "firstIndex (DesktopPaginationNavi_init page (DesktopPaginationNavi page cb k)) = k"
    and "prevBtn (DesktopPaginationNavi_init page (DesktopPaginationNavi page cb k))"
    and "nextBtn (DesktopPaginationNavi_init page (DesktopPaginationNavi page cb k))"
    and "naviListItems (DesktopPaginationNavi_init page (DesktopPaginationNavi page cb k))
           = dd_items page"
    and "dd_items page > DISPLAY_BTN_NUM \<Longrightarrow>
         edgeBtnsIndex (DesktopPaginationNavi_init page (DesktopPaginationNavi page cb k))
           = (k, getLoopedLastIndex (dd_items page) DISPLAY_BTN_NUM k)"
  using assms
  by (simp_all add: DesktopPaginationNavi_init_def DesktopPaginationNavi_setInstance_def
        DesktopPaginationNavi_def setNavi_def setPrevNextBtn_def Let_def)


lemma Pagination_init_mobile:
  assumes wrap: "pg_wrap page" "sd_wrap (mobile page) = Some w" "handles w = h # hs"
      and narrow: "\<not> (bp_max bp \<noteq> 0 \<and> innerWidth page \<ge> bp_max bp)"
                  "\<not> (bp_pc bp \<noteq> 0 \<and> innerWidth page \<ge> bp_pc bp)"
  shows "\<exists>p0 nv s. Pagination_init True page (Pagination bp env) = Returns p0
       \<and> slideNavi p0 = Some nv \<and> dragDealer nv = Some (Inr s)
       \<and> btns nv = mobile_btns page
       \<and> activateIndex nv = (if 1 \<le> int (length (mobile_btns page)) then 1 else 0)
       \<and> desktopNavi p0 = None \<and> mobileBtnsBound p0 \<and> pg_currentIndex p0 = 1
       \<and> breakpoint p0 = bp \<and> triggered p0 = []"
proof -
  let ?p = "Pagination bp env"
  obtain nv1 s1 where a: "Pagination_setSlideNavi page ?p =
           Returns (?p\<lparr>slideNaviListItems := mobile_items page, slideNavi := Some nv1\<rparr>)"
    and l1: "dragDealer nv1 = Some (Inr s1)" and b1: "btns nv1 = mobile_btns page"
    using setSlideNavi_live[OF wrap(2,3), of ?p] by blast
  let ?p2 = "?p\<lparr>slideNaviListItems := mobile_items page, slideNavi := Some nv1,
                 mobileBtnsBound := True, pg_resizeBound := True\<rparr>"
  have sn2: "slideNavi ?p2 = Some nv1" and dn2: "desktopNavi ?p2 = None"
    and k2: "pg_currentIndex ?p2 = 1" and bp2: "breakpoint ?p2 = bp"
    by (simp_all add: Pagination_def)
  have r: "Pagination_resize page ?p2 = to_mobile page
             (bp_tablet bp \<noteq> 0 \<and> innerWidth page \<ge> bp_tablet bp) ?p2"
    using narrow by (auto simp add: Pagination_resize_def bp2)
  obtain nv s where t: "to_mobile page (bp_tablet bp \<noteq> 0 \<and> innerWidth page \<ge> bp_tablet bp) ?p2
        = Returns (?p2\<lparr>slideNavi := Some nv\<rparr>)"
    and l: "dragDealer nv = Some (Inr s)" and b: "btns nv = btns nv1"
    and ai: "activateIndex nv = (if 1 \<le> pg_currentIndex ?p2
                                  \<and> pg_currentIndex ?p2 \<le> int (length (btns nv1))
                               then pg_currentIndex ?p2 else 0)"
    using to_mobile_live[OF sn2 l1 dn2] by blast
  have i: "Pagination_init True page ?p = Returns (?p2\<lparr>slideNavi := Some nv\<rparr>)"
    unfolding Pagination_init_def Pagination_setInstance_def a and_then.simps
    using wrap(1) r t by simp
  show ?thesis
  proof (intro exI conjI)
    show "Pagination_init True page ?p = Returns (?p2\<lparr>slideNavi := Some nv\<rparr>)" by (rule i)
    show "slideNavi (?p2\<lparr>slideNavi := Some nv\<rparr>) = Some nv" by simp
    show "dragDealer nv = Some (Inr s)" by (rule l)
    show "btns nv = mobile_btns page" using b b1 by simp
    show "activateIndex nv = (if 1 \<le> int (length (mobile_btns page)) then 1 else 0)"
      using ai b1 k2 by simp
    show "desktopNavi (?p2\<lparr>slideNavi := Some nv\<rparr>) = None" using dn2 by simp
    show "mobileBtnsBound (?p2\<lparr>slideNavi := Some nv\<rparr>)" by simp
    show "pg_currentIndex (?p2\<lparr>slideNavi := Some nv\<rparr>) = 1" using k2 by simp
    show "breakpoint (?p2\<lparr>slideNavi := Some nv\<rparr>) = bp" using bp2 by simp
    show "triggered (?p2\<lparr>slideNavi := Some nv\<rparr>) = []" by (simp add: Pagination_def)
  qed
qed


lemma four_pages_fields:
  "pg_wrap four_pages" "sd_wrap (mobile four_pages) = Some strip_wrapper"
  "handles strip_wrapper = [\<lparr> offsetWidth = 750, offsetHeight = 40, rect = (0, 0) \<rparr>]"
  "innerWidth four_pages = 375" "mobile_btns four_pages = [1, 2, 3, 4]"
  "innerWidth wide_pages = 1024" "dd_wrap (desktop wide_pages)"
  "dd_btns (desktop wide_pages) = [11, 12, 13, 14]"
  by (simp_all add: four_pages_def wide_pages_def strip_wrapper_def)

lemma four_pages_init:
  "\<exists>p0 nv s. Pagination_init True four_pages (Pagination BREAKPOINTS False) = Returns p0
       \<and> slideNavi p0 = Some nv \<and> dragDealer nv = Some (Inr s)
       \<and> btns nv = [1, 2, 3, 4] \<and> activateIndex nv = 1
       \<and> desktopNavi p0 = None \<and> mobileBtnsBound p0 \<and> pg_currentIndex p0 = 1
       \<and> breakpoint p0 = BREAKPOINTS \<and> triggered p0 = []"
  using Pagination_init_mobile[OF four_pages_fields(1,2,3), of BREAKPOINTS False]
  by (simp add: four_pages_fields BREAKPOINTS_def)


theorem mobile_prev_next_witness:
  "\<exists>p0 nv.
      Pagination_init True four_pages (Pagination BREAKPOINTS False) = Returns p0
    \<and> mobileBtnsBound p0 \<and> slideNavi p0 = Some nv \<and> length (btns nv) = 4
    \<and> pg_currentIndex p0 = 1 \<and> triggered p0 = []
    \<and> clickPrevMobile p0 = Returns (p0\<lparr>triggered := [0]\<rparr>)
    \<and> clickNextMobile p0 = Returns (p0\<lparr>triggered := [2]\<rparr>)
    \<and> clickPrevMobile (p0\<lparr>pg_currentIndex := 4\<rparr>)
          = Returns (p0\<lparr>pg_currentIndex := 4, triggered := [3]\<rparr>)
    \<and> clickNextMobile (p0\<lparr>pg_currentIndex := 4\<rparr>)
          = Returns (p0\<lparr>pg_currentIndex := 4, triggered := [5]\<rparr>)
    \<and> clickNextMobile (p0\<lparr>pg_currentIndex := 5\<rparr>)
          = Returns (p0\<lparr>pg_currentIndex := 5, triggered := [0]\<rparr>)"
proof -
  obtain p0 nv where i: "Pagination_init True four_pages (Pagination BREAKPOINTS False) = Returns p0"
    and p0: "slideNavi p0 = Some nv" "btns nv = [1, 2, 3, 4]" "mobileBtnsBound p0"
      "pg_currentIndex p0 = 1" "triggered p0 = []"
    using four_pages_init by blast
  have h: "mobileBtnsBound (p0\<lparr>pg_currentIndex := k\<rparr>)"
    "slideNavi (p0\<lparr>pg_currentIndex := k\<rparr>) = Some nv" for k
    using p0 by simp_all
  note m = mobile_prev_next[OF p0(3) p0(1)] mobile_prev_next[OF h, of 4] mobile_prev_next[OF h, of 5]
  show ?thesis
  proof (intro exI conjI)
    show "Pagination_init True four_pages (Pagination BREAKPOINTS False) = Returns p0" by (rule i)
    show "mobileBtnsBound p0" "slideNavi p0 = Some nv" "pg_currentIndex p0 = 1" "triggered p0 = []"
      by (rule p0)+
    show "length (btns nv) = 4" using p0(2) by simp
    show "clickPrevMobile p0 = Returns (p0\<lparr>triggered := [0]\<rparr>)"
      using m(1) p0 by simp
    show "clickNextMobile p0 = Returns (p0\<lparr>triggered := [2]\<rparr>)"
      using m(1) p0 by simp
    show "clickPrevMobile (p0\<lparr>pg_currentIndex := 4\<rparr>)
          = Returns (p0\<lparr>pg_currentIndex := 4, triggered := [3]\<rparr>)"
      using m(2) p0 by simp
    show "clickNextMobile (p0\<lparr>pg_currentIndex := 4\<rparr>)
          = Returns (p0\<lparr>pg_currentIndex := 4, triggered := [5]\<rparr>)"
      using m(2) p0 by simp
    show "clickNextMobile (p0\<lparr>pg_currentIndex := 5\<rparr>)
          = Returns (p0\<lparr>pg_currentIndex := 5, triggered := [0]\<rparr>)"
      using m(3) p0 by simp
  qed
qed

subsection \<open>Destroying a navigator twice\<close>

lemma Navi_destroy_twice:
  "Navi_destroy (Navi_destroy n) = Navi_destroy n"
  by (simp add: Navi_destroy_def setBtnsEventHandler_def)

lemma Navi_destroy_unbinds:
  "set (bound n) \<subseteq> set (btns n) \<Longrightarrow> bound (Navi_destroy n) = []"
  by (auto simp: Navi_destroy_def setBtnsEventHandler_def filter_empty_conv)

lemma Navi_destroy_silent:
  assumes "set (bound n) \<subseteq> set (btns n)"
  shows "dispatch (Navi_destroy n) ev b = Navi_destroy n"
    and "navi_calls (Navi_activate (Navi_destroy n) i) = navi_calls n"
  using Navi_destroy_unbinds[OF assms]
  by (simp_all add: dispatch_def Navi_activate_def call_def Let_def Navi_destroy_def
        setBtnsEventHandler_def)

lemma HorizontalSlideNavi_destroy_twice:
  assumes "dragDealer nv = Some (Inr s) \<or> dragDealer nv = None"
  shows "\<exists>nv1. HorizontalSlideNavi_destroy nv = Returns nv1
       \<and> HorizontalSlideNavi_destroy nv1 = Returns nv1
       \<and> dragDealer nv1 = None \<and> \<not> resizeBound nv1"
proof -
  let ?nv1 = "Navi_destroy (nv\<lparr>resizeBound := False, isDraggable := False, dragDealer := None\<rparr>)"
  have a: "HorizontalSlideNavi_destroy nv = Returns ?nv1"
    using assms
    by (auto simp: HorizontalSlideNavi_destroy_def setResizeEventHandler_def Let_def)
  have d: "dragDealer ?nv1 = None" "\<not> resizeBound ?nv1"
    by (simp_all add: Navi_destroy_def setBtnsEventHandler_def)
  have b: "HorizontalSlideNavi_destroy ?nv1 = Returns ?nv1"
    by (simp add: HorizontalSlideNavi_destroy_def setResizeEventHandler_def Let_def
          Navi_destroy_def setBtnsEventHandler_def)
  from a b d show ?thesis by blast
qed

lemma DesktopPaginationNavi_destroy_twice:
  assumes "prevBtn d" "nextBtn d"
  shows "DesktopPaginationNavi_destroy d =
           Returns (d\<lparr>dn_navi := None, naviListItems := 0, prevBtn := False, nextBtn := False,
                       prevBound := False, nextBound := False, dn_resizeBound := False\<rparr>)"
    and "DesktopPaginationNavi_destroy
           (d\<lparr>dn_navi := None, naviListItems := 0, prevBtn := False, nextBtn := False,
               prevBound := False, nextBound := False, dn_resizeBound := False\<rparr>)
         = Throws TypeError
           (d\<lparr>dn_navi := None, naviListItems := 0, prevBtn := False, nextBtn := False,
               prevBound := False, nextBound := False, dn_resizeBound := False\<rparr>)"
  using assms
  by (simp_all add: DesktopPaginationNavi_destroy_def Let_def split: option.splits)

text \<open>
  C5 fails for \<^verbatim>\<open>DesktopPaginationNavi\<close>: on the navigator of \<open>wide_pages\<close> the first
  \<^verbatim>\<open>destroy()\<close> returns and sets \<^verbatim>\<open>prevBtn\<close> to \<^verbatim>\<open>null\<close>, and the second one throws a
  \<^verbatim>\<open>TypeError\<close> at \<^verbatim>\<open>_.prevBtn.off(...)\<close>.
\<close>

theorem desktop_destroy_twice_throws:
  "DesktopPaginationNavi_destroy four_desktop =
     Returns (four_desktop\<lparr>dn_navi := None, naviListItems := 0, prevBtn := False,
                nextBtn := False, prevBound := False, nextBound := False,
                dn_resizeBound := False\<rparr>)
   \<and> DesktopPaginationNavi_destroy
       (four_desktop\<lparr>dn_navi := None, naviListItems := 0, prevBtn := False,
                nextBtn := False, prevBound := False, nextBound := False,
                dn_resizeBound := False\<rparr>)
     = Throws TypeError
       (four_desktop\<lparr>dn_navi := None, naviListItems := 0, prevBtn := False,
                nextBtn := False, prevBound := False, nextBound := False,
                dn_resizeBound := False\<rparr>)"
proof -
  have w: "dd_wrap (desktop wide_pages)" by (rule four_pages_fields(7))
  have "prevBtn four_desktop" "nextBtn four_desktop"
    unfolding four_desktop_def by (rule desktop_init_found(3,4)[OF w])+
  from DesktopPaginationNavi_destroy_twice[OF this] show ?thesis by simp
qed

subsection \<open>The window of the desktop navigator\<close>









lemma switchBtns_prev_right_edge:
  assumes "switchBtns inLoop revFirst d (Some Prev) i = Returns d'" "d' \<noteq> d"
  shows "snd (edgeBtnsIndex d') = i"
  using assms
  by (auto simp: switchBtns_def split: if_splits option.splits)

end
